theory Spec2Isabelle
  imports Complex_Main
begin

section \<open>Values shared by the controllers\<close>

text \<open>
  An ObjectId is a natural number and a Date is its number of milliseconds. A handler
  takes the database and the request and returns the database it leaves behind together
  with its HTTP response: \<open>Inl (code, message)\<close> for
  \<^verbatim>\<open>res.status(code).json({ success: false, message })\<close> and \<open>Inr\<close> for a success.
  What a handler takes from outside (the clock, the identifier of a created document,
  the two parts of a generated receipt number, whether the payment collection accepts a
  write) is the record \<open>env\<close>.

  A string is a list of characters with code points below 256. A number is a finite
  JavaScript number, modelled by its value as a rational.
\<close>

type_synonym oid = nat
type_synonym date = int
type_synonym number = rat

datatype db_error = ValidationFailed | DuplicateKey | WriteFailed

datatype message =
    Msg string
  | PaymentAmountMismatch number number
  | ErrorMessage db_error

type_synonym failure = "nat \<times> message"

datatype user_role = student | parent | warden

record user =
  userId :: oid
  role :: user_role

record env =
  now :: date
  newId :: oid
  receiptTs :: string
  receiptRnd :: string
  paymentWriteOk :: bool

text \<open>\<^verbatim>\<open>String.prototype.trim\<close>, which is also the schema option \<open>trim: true\<close>: of the
  code points below 256 it strips tab, line feed, vertical tab, form feed, carriage
  return, space and the no-break space.\<close>

definition isSpace :: "char \<Rightarrow> bool" where
  "isSpace c =
     (c \<in> set [CHR '' '', CHR 0x09, CHR 0x0A, CHR 0x0B, CHR 0x0C, CHR 0x0D, CHR 0xA0])"

definition trim :: "string \<Rightarrow> string" where
  "trim s = rev (dropWhile isSpace (rev (dropWhile isSpace s)))"

text \<open>JavaScript truthiness of an optional string: \<open>undefined\<close> and \<open>''\<close> are falsy.\<close>

fun truthy :: "string option \<Rightarrow> bool" where
  "truthy None = False"
| "truthy (Some s) = (s \<noteq> [])"

section \<open>Data model (the Mongoose schemas)\<close>

record student_doc =
  studentOid :: oid
  studentUserId :: oid
  rollNumber :: string

record parent_doc =
  parentUserId :: oid
  parentStudentId :: oid

datatype presence = IN | OUT

datatype capture = QR | Biometric | Manual

record entry_exit =
  logId :: oid
  logStudentId :: oid
  inTime :: "date option"
  outTime :: "date option"
  logStatus :: presence
  logMethod :: capture
  logCreatedAt :: date

datatype leave_status =
    Pending | PendingParent | ApprovedByParent | RejectedByParent
  | Approved | Rejected | Cancelled

datatype outing_type =
    HomeVisit | LocalCoaching | MedicalCheckup | LocalMarket | EmergencyLeave | Other

datatype parent_decision = ParentPending | ParentApproved | ParentRejected

record history_entry =
  hStatus :: leave_status
  hUpdatedBy :: "oid option"
  hRole :: user_role
  hReason :: "string option"
  hTimestamp :: date

record leave =
  leaveId :: oid
  leaveStudentId :: oid
  leaveReason :: string
  leaveType :: outing_type
  leaveStatus :: leave_status
  outDate :: date
  inDate :: date
  leaveOutTime :: "string option"
  leaveInTime :: "string option"
  approvedBy :: "oid option"
  approvedAt :: "date option"
  rejectionReason :: "string option"
  parentApprovalStatus :: "parent_decision option"
  parentApprovedBy :: "oid option"
  parentApprovedAt :: "date option"
  parentRejectionReason :: "string option"
  statusHistory :: "history_entry list"
  leaveCreatedAt :: date

datatype fee_status = Paid | FeePending

record fee =
  feeId :: oid
  feeStudentId :: oid
  amount :: number
  feeTerm :: string
  feeStatus :: fee_status
  receiptNumber :: "string option"
  paidAt :: "date option"
  paidBy :: "user_role option"
  paidByUserId :: "oid option"
  feeCreatedAt :: date

datatype pay_method = UPI | Card | Netbanking | Cash

datatype pay_status = PayPending | Completed | Failed

record payment =
  paymentId :: oid
  payStudentId :: oid
  payerType :: user_role
  payerUserId :: oid
  payAmount :: number
  payMethod :: pay_method
  payStatus :: pay_status
  transactionId :: string

record db =
  students :: "student_doc list"
  parents :: "parent_doc list"
  leaves :: "leave list"
  fees :: "fee list"
  payments :: "payment list"
  logs :: "entry_exit list"

section \<open>Identity lookups\<close>

text \<open>\<^verbatim>\<open>Student.findOne({ userId })\<close>, \<^verbatim>\<open>Student.findById(id)\<close>,
  \<^verbatim>\<open>Student.findOne({ rollNumber })\<close> and \<^verbatim>\<open>Parent.findOne({ userId })\<close>.\<close>

definition studentByUser :: "db \<Rightarrow> oid \<Rightarrow> student_doc option" where
  "studentByUser d u = find (\<lambda>s. studentUserId s = u) (students d)"

definition studentById :: "db \<Rightarrow> oid \<Rightarrow> student_doc option" where
  "studentById d i = find (\<lambda>s. studentOid s = i) (students d)"

definition studentByRoll :: "db \<Rightarrow> string \<Rightarrow> student_doc option" where
  "studentByRoll d r = find (\<lambda>s. rollNumber s = r) (students d)"

definition parentByUser :: "db \<Rightarrow> oid \<Rightarrow> parent_doc option" where
  "parentByUser d u = find (\<lambda>p. parentUserId p = u) (parents d)"

section \<open>Entry/exit controller\<close>

text \<open>
  The body's \<open>studentId\<close> is either a Mongo ObjectId or a roll number
  (\<^verbatim>\<open>mongoose.Types.ObjectId.isValid\<close> decides which); \<open>None\<close> is a falsy value.
\<close>

datatype student_ref = ById oid | ByRoll string

record entry_body =
  bodyStudentId :: "student_ref option"
  bodyMethod :: "string option"

text \<open>The destructuring default \<^verbatim>\<open>method = 'Manual'\<close> and the schema's enum
  \<^verbatim>\<open>['QR', 'Biometric', 'Manual']\<close>.\<close>

definition methodOrDefault :: "string option \<Rightarrow> string" where
  "methodOrDefault m = (case m of None \<Rightarrow> ''Manual'' | Some s \<Rightarrow> s)"

definition castMethod :: "string \<Rightarrow> capture option" where
  "castMethod s =
     (if s = ''QR'' then Some QR
      else if s = ''Biometric'' then Some Biometric
      else if s = ''Manual'' then Some Manual
      else None)"

text \<open>The first half of \<^verbatim>\<open>markEntry\<close> and \<^verbatim>\<open>markExit\<close>: whose log is written.\<close>

definition targetStudent :: "db \<Rightarrow> user \<Rightarrow> student_ref option \<Rightarrow> failure + oid" where
  "targetStudent d u sref =
     (if role u = student then
        (case studentByUser d (userId u) of
           None \<Rightarrow> Inl (404, Msg ''Student profile not found'')
         | Some s \<Rightarrow> Inr (studentOid s))
      else
        (case sref of
           None \<Rightarrow> Inl (400, Msg ''Please provide studentId'')
         | Some r \<Rightarrow>
             (case (case r of ById i \<Rightarrow> studentById d i
                            | ByRoll n \<Rightarrow> studentByRoll d (trim n)) of
                None \<Rightarrow> Inl (404, Msg ''Student not found'')
              | Some s \<Rightarrow> Inr (studentOid s))))"

text \<open>\<^verbatim>\<open>EntryExit.findOne({ studentId }).sort({ createdAt: -1 })\<close>: among the
  student's logs, one with the greatest creation time (the earliest stored of them).\<close>

definition newer :: "entry_exit \<Rightarrow> entry_exit \<Rightarrow> entry_exit" where
  "newer best l = (if logCreatedAt best < logCreatedAt l then l else best)"

definition lastLogOf :: "entry_exit list \<Rightarrow> oid \<Rightarrow> entry_exit option" where
  "lastLogOf ls sid =
     (case filter (\<lambda>l. logStudentId l = sid) ls of
        [] \<Rightarrow> None
      | l # rest \<Rightarrow> Some (foldl newer l rest))"

text \<open>\<^verbatim>\<open>doc.save()\<close> of an existing log writes it over the stored document of
  the same \<open>_id\<close>.\<close>

definition saveLog :: "entry_exit \<Rightarrow> entry_exit list \<Rightarrow> entry_exit list" where
  "saveLog l ls = map (\<lambda>x. if logId x = logId l then l else x) ls"

definition markEntry :: "env \<Rightarrow> db \<Rightarrow> user \<Rightarrow> entry_body \<Rightarrow> db \<times> (failure + entry_exit)" where
  "markEntry e d u b =
     (case targetStudent d u (bodyStudentId b) of
        Inl err \<Rightarrow> (d, Inl err)
      | Inr targetStudentId \<Rightarrow>
          if (case lastLogOf (logs d) targetStudentId of
                None \<Rightarrow> False
              | Some lastLog \<Rightarrow> logStatus lastLog = IN)
          then (d, Inl (400, Msg ''Student is already marked as IN''))
          else (case castMethod (methodOrDefault (bodyMethod b)) of
                  None \<Rightarrow> (d, Inl (500, ErrorMessage ValidationFailed))
                | Some m \<Rightarrow>
                    let entryLog = \<lparr> logId = newId e, logStudentId = targetStudentId,
                                     inTime = Some (now e), outTime = None,
                                     logStatus = IN, logMethod = m,
                                     logCreatedAt = now e \<rparr>
                    in (d\<lparr>logs := logs d @ [entryLog]\<rparr>, Inr entryLog)))"

definition markExit :: "env \<Rightarrow> db \<Rightarrow> user \<Rightarrow> entry_body \<Rightarrow> db \<times> (failure + entry_exit)" where
  "markExit e d u b =
     (case targetStudent d u (bodyStudentId b) of
        Inl err \<Rightarrow> (d, Inl err)
      | Inr targetStudentId \<Rightarrow>
          (case lastLogOf (logs d) targetStudentId of
             None \<Rightarrow> (d, Inl (400, Msg ''Student is not currently marked as IN''))
           | Some lastLog \<Rightarrow>
               if logStatus lastLog = OUT
               then (d, Inl (400, Msg ''Student is not currently marked as IN''))
               else (case castMethod (methodOrDefault (bodyMethod b)) of
                       None \<Rightarrow> (d, Inl (500, ErrorMessage ValidationFailed))
                     | Some m \<Rightarrow>
                         let lastLog' = lastLog\<lparr> outTime := Some (now e), logStatus := OUT,
                                                 logMethod := m \<rparr>
                         in (d\<lparr>logs := saveLog lastLog' (logs d)\<rparr>, Inr lastLog'))))"

text \<open>The databases the entry/exit handlers can produce: from any database without logs,
  by \<^verbatim>\<open>markEntry\<close>, by \<^verbatim>\<open>markExit\<close>, and by any other handler, none of which
  writes the log collection.\<close>

inductive logsReachable :: "db \<Rightarrow> bool" where
  noLogs: "logs d = [] \<Longrightarrow> logsReachable d"
| entry: "logsReachable d \<Longrightarrow> logsReachable (fst (markEntry e d u b))"
| exit: "logsReachable d \<Longrightarrow> logsReachable (fst (markExit e d u b))"
| other: "logsReachable d \<Longrightarrow> logs d' = logs d \<Longrightarrow> logsReachable d'"

definition logOk :: "entry_exit \<Rightarrow> bool" where
  "logOk l = (inTime l \<noteq> None \<and> (logStatus l = OUT \<longrightarrow> outTime l \<noteq> None)
                \<and> (logStatus l = IN \<longrightarrow> outTime l = None))"

section \<open>Leave controller\<close>

text \<open>
  \<^verbatim>\<open>new Date(x)\<close> is either an Invalid Date or a point in time. A body field is
  \<open>None\<close> when it is falsy for \<^verbatim>\<open>!x\<close> (absent or empty); for the two dates the body
  carries the value \<^verbatim>\<open>new Date\<close> makes of the raw field.
\<close>

datatype jsdate = InvalidDate | ValidDate date

record leave_body =
  bodyReason :: "string option"
  bodyType :: "string option"
  bodyOutDate :: "jsdate option"
  bodyInDate :: "jsdate option"
  bodyOutTime :: "string option"
  bodyInTime :: "string option"

record decision_body =
  bodyStatus :: "string option"
  bodyRejectionReason :: "string option"

text \<open>\<^verbatim>\<open>a >= b\<close> on two Date objects compares their times; with an Invalid Date
  (time \<open>NaN\<close>) every comparison is false.\<close>

fun dateGe :: "jsdate \<Rightarrow> jsdate \<Rightarrow> bool" where
  "dateGe (ValidDate a) (ValidDate b) = (a \<ge> b)"
| "dateGe _ _ = False"

definition castType :: "string \<Rightarrow> outing_type option" where
  "castType s =
     (if s = ''Home Visit'' then Some HomeVisit
      else if s = ''Local Coaching/Classes'' then Some LocalCoaching
      else if s = ''Medical Checkup'' then Some MedicalCheckup
      else if s = ''Local Market/Personal'' then Some LocalMarket
      else if s = ''Emergency Leave'' then Some EmergencyLeave
      else if s = ''Other'' then Some Other
      else None)"

text \<open>The schema's \<^verbatim>\<open>pre('save')\<close> hook: the save fails when \<open>inDate < outDate\<close>.\<close>

definition preSave :: "leave \<Rightarrow> bool" where
  "preSave l = (\<not> inDate l < outDate l)"

text \<open>\<^verbatim>\<open>Leave.create\<close>: casting and validation of the fields the controller passes
  (required trimmed reason, enum type, two valid dates), then the hook.\<close>

definition newLeave ::
  "env \<Rightarrow> oid \<Rightarrow> string \<Rightarrow> string \<Rightarrow> jsdate \<Rightarrow> jsdate \<Rightarrow> string option \<Rightarrow> string option
     \<Rightarrow> leave option" where
  "newLeave e sid reason ty outD inD outT inT =
     (case (castType ty, outD, inD) of
        (Some t, ValidDate od, ValidDate idt) \<Rightarrow>
          (let l = \<lparr> leaveId = newId e, leaveStudentId = sid, leaveReason = trim reason,
                     leaveType = t, leaveStatus = PendingParent, outDate = od, inDate = idt,
                     leaveOutTime = outT, leaveInTime = inT,
                     approvedBy = None, approvedAt = None, rejectionReason = None,
                     parentApprovalStatus = Some ParentPending, parentApprovedBy = None,
                     parentApprovedAt = None, parentRejectionReason = None,
                     statusHistory = [\<lparr> hStatus = PendingParent, hUpdatedBy = None,
                                        hRole = student, hReason = None,
                                        hTimestamp = now e \<rparr>],
                     leaveCreatedAt = now e \<rparr>
           in if trim reason \<noteq> [] \<and> preSave l then Some l else None)
      | _ \<Rightarrow> None)"

definition createLeaveRequest :: "env \<Rightarrow> db \<Rightarrow> user \<Rightarrow> leave_body \<Rightarrow> db \<times> (failure + leave)" where
  "createLeaveRequest e d u b =
     (if \<not> truthy (bodyReason b) \<or> \<not> truthy (bodyType b)
         \<or> bodyOutDate b = None \<or> bodyInDate b = None
      then (d, Inl (400, Msg ''Please provide reason, type, out date, and in date''))
      else let outDateObj = the (bodyOutDate b); inDateObj = the (bodyInDate b) in
        if dateGe outDateObj inDateObj
        then (d, Inl (400, Msg ''Out date must be before in date''))
        else (case studentByUser d (userId u) of
                None \<Rightarrow> (d, Inl (404, Msg ''Student profile not found''))
              | Some st \<Rightarrow>
                  (case newLeave e (studentOid st) (the (bodyReason b)) (the (bodyType b))
                          outDateObj inDateObj (bodyOutTime b) (bodyInTime b) of
                     None \<Rightarrow> (d, Inl (500, Msg ''Server error while creating leave request''))
                   | Some l \<Rightarrow> (d\<lparr>leaves := leaves d @ [l]\<rparr>, Inr l))))"

text \<open>\<^verbatim>\<open>Model.findOneAndUpdate(filter, update, { new: true })\<close>: the first document
  matching the filter is updated in place and returned; \<open>None\<close> when none matches.\<close>

fun findOneAndUpdate :: "('a \<Rightarrow> bool) \<Rightarrow> ('a \<Rightarrow> 'a) \<Rightarrow> 'a list \<Rightarrow> 'a list \<times> 'a option" where
  "findOneAndUpdate P f [] = ([], None)"
| "findOneAndUpdate P f (x # xs) =
     (if P x then (f x # xs, Some (f x))
      else (case findOneAndUpdate P f xs of (ys, r) \<Rightarrow> (x # ys, r)))"

definition leaveById :: "db \<Rightarrow> oid \<Rightarrow> leave option" where
  "leaveById d i = find (\<lambda>l. leaveId l = i) (leaves d)"

text \<open>The update document of \<^verbatim>\<open>parentApproveOrReject\<close>. A key of \<open>$set\<close> whose value
  is \<open>undefined\<close> is not written; string fields are trimmed by the schema.\<close>

definition parentUpdate :: "env \<Rightarrow> user \<Rightarrow> bool \<Rightarrow> string option \<Rightarrow> leave \<Rightarrow> leave" where
  "parentUpdate e u approve reason l =
     l\<lparr> leaveStatus := (if approve then ApprovedByParent else RejectedByParent),
        parentApprovalStatus := Some (if approve then ParentApproved else ParentRejected),
        parentApprovedBy := Some (userId u),
        parentApprovedAt := Some (now e),
        parentRejectionReason :=
          (if approve \<or> reason = None then parentRejectionReason l else map_option trim reason),
        statusHistory := statusHistory l @
          [\<lparr> hStatus = (if approve then ApprovedByParent else RejectedByParent),
              hUpdatedBy = Some (userId u), hRole = parent,
              hReason = (if approve then None else reason), hTimestamp = now e \<rparr>] \<rparr>"

definition parentApproveOrReject ::
  "env \<Rightarrow> db \<Rightarrow> user \<Rightarrow> oid \<Rightarrow> decision_body \<Rightarrow> db \<times> (failure + leave)" where
  "parentApproveOrReject e d u i b =
     (if bodyStatus b \<noteq> Some ''Approved'' \<and> bodyStatus b \<noteq> Some ''Rejected''
      then (d, Inl (400, Msg ''Invalid status. Must be Approved or Rejected''))
      else case parentByUser d (userId u) of
        None \<Rightarrow> (d, Inl (403, Msg ''Parent profile not found''))
      | Some p \<Rightarrow>
          (case findOneAndUpdate
                  (\<lambda>l. leaveId l = i \<and> leaveStudentId l = parentStudentId p
                        \<and> leaveStatus l = PendingParent)
                  (parentUpdate e u (bodyStatus b = Some ''Approved'') (bodyRejectionReason b))
                  (leaves d) of
             (ls, Some updated) \<Rightarrow> (d\<lparr>leaves := ls\<rparr>, Inr updated)
           | (ls, None) \<Rightarrow>
               (case leaveById d i of
                  None \<Rightarrow> (d, Inl (404, Msg ''Leave request not found''))
                | Some existing \<Rightarrow>
                    if (case studentById d (leaveStudentId existing) of
                          None \<Rightarrow> True
                        | Some s \<Rightarrow> studentOid s \<noteq> parentStudentId p)
                    then (d, Inl (403, Msg ''Not authorized to approve this leave request''))
                    else (d, Inl (409, Msg ''This outing request was already processed by parent'')))))"

text \<open>The update document of \<^verbatim>\<open>updateLeaveStatus\<close>.\<close>

definition wardenUpdate :: "env \<Rightarrow> user \<Rightarrow> bool \<Rightarrow> string option \<Rightarrow> leave \<Rightarrow> leave" where
  "wardenUpdate e u approve reason l =
     l\<lparr> leaveStatus := (if approve then Approved else Rejected),
        approvedBy := Some (userId u),
        approvedAt := (if approve then Some (now e) else approvedAt l),
        rejectionReason :=
          (if approve \<or> reason = None then rejectionReason l else map_option trim reason),
        statusHistory := statusHistory l @
          [\<lparr> hStatus = (if approve then Approved else Rejected),
              hUpdatedBy = Some (userId u), hRole = warden,
              hReason = (if approve then None else reason), hTimestamp = now e \<rparr>] \<rparr>"

text \<open>After a successful update the response reads
  \<^verbatim>\<open>updated.studentId.userId.name\<close>, which throws when the populated student is
  \<open>null\<close>: the update stays and the handler answers 500.\<close>

definition updateLeaveStatus ::
  "env \<Rightarrow> db \<Rightarrow> user \<Rightarrow> oid \<Rightarrow> decision_body \<Rightarrow> db \<times> (failure + leave)" where
  "updateLeaveStatus e d u i b =
     (if bodyStatus b \<noteq> Some ''Approved'' \<and> bodyStatus b \<noteq> Some ''Rejected''
      then (d, Inl (400, Msg ''Invalid status. Must be Approved or Rejected''))
      else case findOneAndUpdate
                  (\<lambda>l. leaveId l = i \<and> leaveStatus l = ApprovedByParent)
                  (wardenUpdate e u (bodyStatus b = Some ''Approved'') (bodyRejectionReason b))
                  (leaves d) of
             (ls, Some updated) \<Rightarrow>
               (case studentById d (leaveStudentId updated) of
                  None \<Rightarrow> (d\<lparr>leaves := ls\<rparr>,
                            Inl (500, Msg ''Server error while updating leave request''))
                | Some s \<Rightarrow> (d\<lparr>leaves := ls\<rparr>, Inr updated))
           | (ls, None) \<Rightarrow>
               (case leaveById d i of
                  None \<Rightarrow> (d, Inl (404, Msg ''Leave request not found''))
                | Some existing \<Rightarrow>
                    (d, Inl (409, Msg ''This outing request was already processed by warden''))))"

text \<open>\<^verbatim>\<open>leave.save()\<close> of an existing request: the hook runs, then the document
  replaces the stored one of the same \<open>_id\<close>.\<close>

definition saveLeave :: "leave \<Rightarrow> leave list \<Rightarrow> leave list option" where
  "saveLeave l ls =
     (if preSave l then Some (map (\<lambda>x. if leaveId x = leaveId l then l else x) ls) else None)"

text \<open>In \<^verbatim>\<open>cancelMyLeaveRequest\<close> the request is loaded with its student populated;
  \<^verbatim>\<open>leave.studentId._id\<close> throws when that student is gone.\<close>

definition cancelMyLeaveRequest :: "db \<Rightarrow> user \<Rightarrow> oid \<Rightarrow> db \<times> (failure + leave)" where
  "cancelMyLeaveRequest d u i =
     (case studentByUser d (userId u) of
        None \<Rightarrow> (d, Inl (404, Msg ''Student profile not found''))
      | Some st \<Rightarrow>
          (case leaveById d i of
             None \<Rightarrow> (d, Inl (404, Msg ''Leave request not found''))
           | Some l \<Rightarrow>
               (case studentById d (leaveStudentId l) of
                  None \<Rightarrow> (d, Inl (500, Msg ''Server error while cancelling leave request''))
                | Some owner \<Rightarrow>
                    if studentOid owner \<noteq> studentOid st
                    then (d, Inl (403, Msg ''Not authorized to cancel this leave request''))
                    else if leaveStatus l \<noteq> Pending \<and> leaveStatus l \<noteq> PendingParent
                    then (d, Inl (400, Msg ''Only pending requests (before parent/warden approval) can be cancelled''))
                    else (case saveLeave (l\<lparr>leaveStatus := Cancelled\<rparr>) (leaves d) of
                            None \<Rightarrow> (d, Inl (500, Msg ''Server error while cancelling leave request''))
                          | Some ls \<Rightarrow> (d\<lparr>leaves := ls\<rparr>, Inr (l\<lparr>leaveStatus := Cancelled\<rparr>))))))"

section \<open>Fee and payment controllers\<close>

text \<open>
  A body field is \<open>None\<close> when it is \<open>undefined\<close>; the body's amount is \<open>None\<close> when it is
  not a number (absent, \<open>NaN\<close> or of another type).
\<close>

record fee_body =
  fbStudentId :: "oid option"
  fbAmount :: "number option"
  fbTerm :: "string option"
  fbStatus :: "string option"
  fbReceiptNumber :: "string option"

record pay_body =
  pbAmount :: "number option"
  pbMethod :: "string option"
  pbTransactionId :: "string option"

record pay_response =
  respMessage :: string
  respData :: "fee list"
  respReceiptNumber :: "string option"

definition castFeeStatus :: "string \<Rightarrow> fee_status option" where
  "castFeeStatus s =
     (if s = ''Paid'' then Some Paid else if s = ''Pending'' then Some FeePending else None)"

definition castPayMethod :: "string \<Rightarrow> pay_method option" where
  "castPayMethod s =
     (if s = ''UPI'' then Some UPI
      else if s = ''Card'' then Some Card
      else if s = ''Netbanking'' then Some Netbanking
      else if s = ''Cash'' then Some Cash
      else None)"

text \<open>The fee schema's validators (\<open>min: 0\<close> on the amount, a required trimmed term) and
  its unique sparse index on \<open>receiptNumber\<close>: a write is refused when another document
  carries the same receipt number.\<close>

definition validFee :: "fee \<Rightarrow> bool" where
  "validFee f = (amount f \<ge> 0 \<and> feeTerm f \<noteq> [])"

definition receiptTaken :: "fee \<Rightarrow> fee list \<Rightarrow> bool" where
  "receiptTaken f fs =
     (receiptNumber f \<noteq> None
      \<and> (\<exists>g \<in> set fs. feeId g \<noteq> feeId f \<and> receiptNumber g = receiptNumber f))"

text \<open>\<^verbatim>\<open>fee.save()\<close> of a loaded fee: validation, the index, then the document replaces
  the stored one of the same \<open>_id\<close>.\<close>

definition saveFee :: "fee \<Rightarrow> fee list \<Rightarrow> db_error + fee list" where
  "saveFee f fs =
     (if \<not> validFee f then Inl ValidationFailed
      else if receiptTaken f fs then Inl DuplicateKey
      else Inr (map (\<lambda>g. if feeId g = feeId f then f else g) fs))"

definition feeById :: "db \<Rightarrow> oid \<Rightarrow> fee option" where
  "feeById d i = find (\<lambda>f. feeId f = i) (fees d)"

text \<open>\<^verbatim>\<open>createFee\<close>: \<^verbatim>\<open>!amount\<close> also refuses an amount of 0; the status of the body
  (default \<open>'Pending'\<close>) goes into the new document as it is.\<close>

definition createFee :: "env \<Rightarrow> db \<Rightarrow> fee_body \<Rightarrow> db \<times> (failure + fee)" where
  "createFee e d b =
     (if fbStudentId b = None \<or> fbAmount b = None \<or> fbAmount b = Some 0 \<or> \<not> truthy (fbTerm b)
      then (d, Inl (400, Msg ''Please provide studentId, amount, and term''))
      else case studentById d (the (fbStudentId b)) of
        None \<Rightarrow> (d, Inl (404, Msg ''Student not found''))
      | Some st \<Rightarrow>
          (case castFeeStatus (case fbStatus b of None \<Rightarrow> ''Pending'' | Some s \<Rightarrow> s) of
             None \<Rightarrow> (d, Inl (500, ErrorMessage ValidationFailed))
           | Some status \<Rightarrow>
               let f = \<lparr> feeId = newId e, feeStudentId = the (fbStudentId b),
                         amount = the (fbAmount b), feeTerm = trim (the (fbTerm b)),
                         feeStatus = status, receiptNumber = None, paidAt = None,
                         paidBy = None, paidByUserId = None, feeCreatedAt = now e \<rparr>
               in if validFee f then (d\<lparr>fees := fees d @ [f]\<rparr>, Inr f)
                  else (d, Inl (500, ErrorMessage ValidationFailed))))"

text \<open>The assignments of \<^verbatim>\<open>updateFee\<close> on the loaded document; \<open>None\<close> when the
  status is not one of the enum, which the save then refuses.\<close>

definition updateFeeDoc :: "env \<Rightarrow> fee_body \<Rightarrow> fee \<Rightarrow> fee option" where
  "updateFeeDoc e b f =
     (let f1 = (case fbAmount b of None \<Rightarrow> f | Some a \<Rightarrow> f\<lparr>amount := a\<rparr>) in
      case (case fbStatus b of
              None \<Rightarrow> Some f1
            | Some s \<Rightarrow>
                (case castFeeStatus s of
                   None \<Rightarrow> None
                 | Some st \<Rightarrow>
                     Some (f1\<lparr> feeStatus := st,
                               paidAt := (if s = ''Paid'' \<and> paidAt f1 = None
                                          then Some (now e) else paidAt f1) \<rparr>))) of
        None \<Rightarrow> None
      | Some f2 \<Rightarrow>
          (let f3 = (case fbTerm b of None \<Rightarrow> f2 | Some t \<Rightarrow> f2\<lparr>feeTerm := trim t\<rparr>) in
           Some (case fbReceiptNumber b of
                   None \<Rightarrow> f3
                 | Some r \<Rightarrow> f3\<lparr>receiptNumber := Some (trim r)\<rparr>)))"

definition updateFee :: "env \<Rightarrow> db \<Rightarrow> oid \<Rightarrow> fee_body \<Rightarrow> db \<times> (failure + fee)" where
  "updateFee e d i b =
     (case feeById d i of
        None \<Rightarrow> (d, Inl (404, Msg ''Fee record not found''))
      | Some f \<Rightarrow>
          (case updateFeeDoc e b f of
             None \<Rightarrow> (d, Inl (500, ErrorMessage ValidationFailed))
           | Some f' \<Rightarrow>
               (case saveFee f' (fees d) of
                  Inl err \<Rightarrow> (d, Inl (500, ErrorMessage err))
                | Inr fs \<Rightarrow> (d\<lparr>fees := fs\<rparr>, Inr f'))))"

definition markFeePaid :: "env \<Rightarrow> db \<Rightarrow> user \<Rightarrow> oid \<Rightarrow> fee_body \<Rightarrow> db \<times> (failure + fee)" where
  "markFeePaid e d u i b =
     (case feeById d i of
        None \<Rightarrow> (d, Inl (404, Msg ''Fee record not found''))
      | Some f \<Rightarrow>
          (let f1 = f\<lparr> feeStatus := Paid, paidAt := Some (now e), paidBy := Some warden,
                       paidByUserId := Some (userId u) \<rparr>;
               f' = (if truthy (fbReceiptNumber b)
                     then f1\<lparr>receiptNumber := Some (trim (the (fbReceiptNumber b)))\<rparr>
                     else f1)
           in case saveFee f' (fees d) of
                Inl err \<Rightarrow> (d, Inl (500, ErrorMessage err))
              | Inr fs \<Rightarrow> (d\<lparr>fees := fs\<rparr>, Inr f')))"

text \<open>\<^verbatim>\<open>generateReceiptNumber\<close>: the clock and a random number, both in base 36, which
  the environment supplies.\<close>

definition generateReceiptNumber :: "env \<Rightarrow> string" where
  "generateReceiptNumber e = ''RCPT-'' @ receiptTs e @ ''-'' @ receiptRnd e"

text \<open>Whose fees \<^verbatim>\<open>payMyFees\<close> settles: the linked student of a parent, the caller's
  own student profile otherwise.\<close>

definition payingStudent :: "db \<Rightarrow> user \<Rightarrow> failure + student_doc" where
  "payingStudent d u =
     (if role u = parent then
        (case parentByUser d (userId u) of
           None \<Rightarrow> Inl (404, Msg ''Parent profile not found'')
         | Some p \<Rightarrow>
             (case studentById d (parentStudentId p) of
                None \<Rightarrow> Inl (404, Msg ''Student profile not found'')
              | Some st \<Rightarrow> Inr st))
      else
        (case studentByUser d (userId u) of
           None \<Rightarrow> Inl (404, Msg ''Student profile not found'')
         | Some st \<Rightarrow> Inr st))"

text \<open>\<^verbatim>\<open>Fee.find({ studentId, status: 'Pending' }).sort({ createdAt: 1 })\<close> and the
  amount due.\<close>

definition pendingFees :: "db \<Rightarrow> oid \<Rightarrow> fee list" where
  "pendingFees d sid =
     sort_key feeCreatedAt
       (filter (\<lambda>f. feeStudentId f = sid \<and> feeStatus f = FeePending) (fees d))"

text \<open>\<^verbatim>\<open>pendingFees.reduce((sum, fee) => sum + (fee.amount || 0), 0)\<close>. The model adds
  exactly; the code adds doubles, which is the same whenever the amounts are whole and not
  negative and their sum is at most \<open>2^53\<close> (\<open>safeAmounts\<close>): every partial sum is then an
  integer a double holds exactly. What is proved of a comparison with the total is proved
  under that condition.\<close>

definition totalDue :: "fee list \<Rightarrow> number" where
  "totalDue fs = foldl (\<lambda>sum fee. sum + amount fee) 0 fs"

definition safeAmounts :: "fee list \<Rightarrow> bool" where
  "safeAmounts fs =
     ((\<forall>f \<in> set fs. amount f \<in> \<int> \<and> 0 \<le> amount f) \<and> sum_list (map amount fs) \<le> 2 ^ 53)"

text \<open>What the settlement assigns to each pending fee before saving it.\<close>

definition settled :: "env \<Rightarrow> user \<Rightarrow> fee \<Rightarrow> fee" where
  "settled e u f =
     f\<lparr> feeStatus := Paid, paidAt := Some (now e),
        receiptNumber := Some (if truthy (receiptNumber f) then the (receiptNumber f)
                               else generateReceiptNumber e),
        paidBy := Some (if role u = parent then parent else student),
        paidByUserId := Some (userId u) \<rparr>"

text \<open>\<^verbatim>\<open>Promise.all\<close> over the saves, taken in the order of the list: every save is
  attempted, each against what the earlier ones left, and the first refusal is the one
  the handler reports.\<close>

fun saveAll :: "fee list \<Rightarrow> fee list \<Rightarrow> fee list \<times> db_error option" where
  "saveAll [] fs = (fs, None)"
| "saveAll (f # rest) fs =
     (case saveFee f fs of
        Inl err \<Rightarrow> (fst (saveAll rest fs), Some err)
      | Inr fs' \<Rightarrow> saveAll rest fs')"

text \<open>\<^verbatim>\<open>Payment.create\<close> inside its own \<open>try\<close>: refused when the method is not one of
  the schema's or the collection does not take the write.\<close>

definition createPayment ::
  "env \<Rightarrow> oid \<Rightarrow> user \<Rightarrow> number \<Rightarrow> string \<Rightarrow> string \<Rightarrow> payment list
     \<Rightarrow> payment list option" where
  "createPayment e sid u amt meth tid ps =
     (case castPayMethod meth of
        None \<Rightarrow> None
      | Some m \<Rightarrow>
          if paymentWriteOk e
          then Some (ps @ [\<lparr> paymentId = newId e, payStudentId = sid,
                             payerType = (if role u = parent then parent else student),
                             payerUserId = userId u, payAmount = amt, payMethod = m,
                             payStatus = Completed, transactionId = trim tid \<rparr>])
          else None)"

definition payMyFees :: "env \<Rightarrow> db \<Rightarrow> user \<Rightarrow> pay_body \<Rightarrow> db \<times> (failure + pay_response)" where
  "payMyFees e d u b =
     (case pbAmount b of
        None \<Rightarrow> (d, Inl (400, Msg ''Please provide a valid amount''))
      | Some amt \<Rightarrow>
          if amt \<le> 0 then (d, Inl (400, Msg ''Please provide a valid amount''))
          else case payingStudent d u of
            Inl err \<Rightarrow> (d, Inl err)
          | Inr st \<Rightarrow>
              let pending = pendingFees d (studentOid st) in
              if pending = []
              then (d, Inr \<lparr> respMessage = ''No pending fees to pay'', respData = [],
                             respReceiptNumber = None \<rparr>)
              else if amt \<noteq> totalDue pending
              then (d, Inl (400, PaymentAmountMismatch (totalDue pending) amt))
              else
                let transactionReceipt = generateReceiptNumber e in
                (case saveAll (map (settled e u) pending) (fees d) of
                  (fs, Some err) \<Rightarrow> (d\<lparr>fees := fs\<rparr>, Inl (500, ErrorMessage err))
                | (fs, None) \<Rightarrow>
                    let ps = (case createPayment e (studentOid st) u amt
                                     (case pbMethod b of None \<Rightarrow> ''UPI'' | Some m \<Rightarrow> m)
                                     (if truthy (pbTransactionId b)
                                      then the (pbTransactionId b) else transactionReceipt)
                                     (payments d) of
                                None \<Rightarrow> payments d
                              | Some ps' \<Rightarrow> ps');
                        d' = d\<lparr>fees := fs, payments := ps\<rparr>
                    in (d', Inr \<lparr> respMessage = ''Payment recorded successfully'',
                                  respData = rev (sort_key feeCreatedAt
                                     (filter (\<lambda>f. feeStudentId f = studentOid st) fs)),
                                  respReceiptNumber = Some transactionReceipt \<rparr>)))"

text \<open>The fee invariant of the data model, and its paid-timestamp half.\<close>

definition paidStamped :: "fee \<Rightarrow> bool" where
  "paidStamped f = (feeStatus f = Paid \<longrightarrow> paidAt f \<noteq> None \<and> truthy (receiptNumber f))"

definition paidDated :: "fee \<Rightarrow> bool" where
  "paidDated f = (feeStatus f = Paid \<longrightarrow> paidAt f \<noteq> None)"

section \<open>Scenario values\<close>

text \<open>One student (user 10) with one parent (user 20) and a warden (user 30), used to
  run the handlers on concrete requests.\<close>

definition scEnv :: "date \<Rightarrow> oid \<Rightarrow> env" where
  "scEnv t i = \<lparr> now = t, newId = i, receiptTs = ''LX5K2'', receiptRnd = ''A1B2C3'',
                 paymentWriteOk = True \<rparr>"

definition scDb :: db where
  "scDb = \<lparr> students = [\<lparr> studentOid = 1, studentUserId = 10, rollNumber = ''R-001'' \<rparr>],
            parents = [\<lparr> parentUserId = 20, parentStudentId = 1 \<rparr>],
            leaves = [], fees = [], payments = [], logs = [] \<rparr>"

definition scStudent :: user where
  "scStudent = \<lparr> userId = 10, role = student \<rparr>"

definition scParent :: user where
  "scParent = \<lparr> userId = 20, role = parent \<rparr>"

definition scWarden :: user where
  "scWarden = \<lparr> userId = 30, role = warden \<rparr>"

definition scLeaveBody :: "date \<Rightarrow> date \<Rightarrow> leave_body" where
  "scLeaveBody od idt = \<lparr> bodyReason = Some ''Visit home'', bodyType = Some ''Home Visit'',
                          bodyOutDate = Some (ValidDate od), bodyInDate = Some (ValidDate idt),
                          bodyOutTime = None, bodyInTime = None \<rparr>"

definition scDecision :: "string \<Rightarrow> decision_body" where
  "scDecision s = \<lparr> bodyStatus = Some s, bodyRejectionReason = None \<rparr>"

definition scEntry :: "string \<Rightarrow> entry_body" where
  "scEntry m = \<lparr> bodyStudentId = None, bodyMethod = Some m \<rparr>"

text \<open>The student has entered at 500, left at 600 and entered again at 700: two logs,
  the older one OUT, the newer one IN.\<close>

definition scTwoLogs :: db where
  "scTwoLogs =
     fst (markEntry (scEnv 700 42)
       (fst (markExit (scEnv 600 41)
          (fst (markEntry (scEnv 500 40) scDb scStudent (scEntry ''QR'')))
          scStudent (scEntry ''Manual'')))
       scStudent (scEntry ''QR''))"

text \<open>The student has submitted a request (id 7, out at 100, in at 300); the parent has
  approved it; then the student's record has been deleted, as the student routes allow,
  without touching the parent link or the request.\<close>

definition scSubmitted :: db where
  "scSubmitted = fst (createLeaveRequest (scEnv 50 7) scDb scStudent (scLeaveBody 100 300))"

definition scParentApproved :: db where
  "scParentApproved =
     fst (parentApproveOrReject (scEnv 60 8) scSubmitted scParent 7 (scDecision ''Approved''))"

definition scOrphaned :: db where
  "scOrphaned = scParentApproved \<lparr> students := [] \<rparr>"

text \<open>The warden has billed the student two terms, 500 and 300 (fees 61 and 62), both
  Pending; in \<open>scOneReceipt\<close> the second has then been given the receipt number R-77.\<close>

definition scFeeBody :: "number \<Rightarrow> string \<Rightarrow> fee_body" where
  "scFeeBody a t = \<lparr> fbStudentId = Some 1, fbAmount = Some a, fbTerm = Some t,
                     fbStatus = None, fbReceiptNumber = None \<rparr>"

definition scReceiptBody :: "string option \<Rightarrow> fee_body" where
  "scReceiptBody r = \<lparr> fbStudentId = None, fbAmount = None, fbTerm = None,
                       fbStatus = None, fbReceiptNumber = r \<rparr>"

definition scTwoFees :: db where
  "scTwoFees = fst (createFee (scEnv 20 62)
                     (fst (createFee (scEnv 10 61) scDb (scFeeBody 500 ''Term 1'')))
                     (scFeeBody 300 ''Term 2''))"

definition scOneReceipt :: db where
  "scOneReceipt = fst (updateFee (scEnv 30 0) scTwoFees 62 (scReceiptBody (Some ''R-77'')))"

definition scPay :: "number \<Rightarrow> string \<Rightarrow> pay_body" where
  "scPay a m = \<lparr> pbAmount = Some a, pbMethod = Some m, pbTransactionId = None \<rparr>"

section \<open>Properties of the lookups\<close>

lemmas sc_defs = scEnv_def scDb_def scStudent_def scParent_def scWarden_def scLeaveBody_def
  scDecision_def scEntry_def

lemmas lookup_defs = studentByUser_def studentById_def studentByRoll_def parentByUser_def
  leaveById_def

lemmas leave_eval = sc_defs lookup_defs createLeaveRequest_def newLeave_def castType_def
  preSave_def trim_def isSpace_def Let_def parentApproveOrReject_def parentUpdate_def

lemmas fee_eval = sc_defs lookup_defs createFee_def castFeeStatus_def validFee_def trim_def
  isSpace_def Let_def feeById_def saveFee_def receiptTaken_def payMyFees_def
  payingStudent_def pendingFees_def totalDue_def settled_def generateReceiptNumber_def
  createPayment_def castPayMethod_def markFeePaid_def updateFee_def updateFeeDoc_def
  scFeeBody_def scReceiptBody_def scTwoFees_def scOneReceipt_def scPay_def

lemma foldl_newer_mem: "foldl newer l rest \<in> set (l # rest)"
  by (induction rest arbitrary: l) (auto simp: newer_def)

lemma foldl_newer_ge: "logCreatedAt l \<le> logCreatedAt (foldl newer l rest)"
proof (induction rest arbitrary: l)
  case Nil
  then show ?case by simp
next
  case (Cons a rest)
  have "logCreatedAt l \<le> logCreatedAt (newer l a)"
    by (simp add: newer_def)
  also have "\<dots> \<le> logCreatedAt (foldl newer (newer l a) rest)"
    by (rule Cons.IH)
  finally show ?case by simp
qed

lemma foldl_newer_max:
  "x \<in> set rest \<Longrightarrow> logCreatedAt x \<le> logCreatedAt (foldl newer l rest)"
proof (induction rest arbitrary: l)
  case Nil
  then show ?case by simp
next
  case (Cons a rest)
  show ?case
  proof (cases "x = a")
    case True
    have "logCreatedAt a \<le> logCreatedAt (newer l a)"
      by (simp add: newer_def)
    also have "\<dots> \<le> logCreatedAt (foldl newer (newer l a) rest)"
      by (rule foldl_newer_ge)
    finally show ?thesis using True by simp
  next
    case False
    then have "x \<in> set rest" using Cons.prems by simp
    then show ?thesis using Cons.IH by simp
  qed
qed

text \<open>\<open>lastLogOf\<close> is the student's most recent log by creation time: it is one of the
  student's logs, none of them was created later, and there is none exactly when the
  student has no log.\<close>

lemma lastLogOf_None:
  "lastLogOf ls sid = None \<longleftrightarrow> (\<forall>l \<in> set ls. logStudentId l \<noteq> sid)"
proof -
  have "lastLogOf ls sid = None \<longleftrightarrow> filter (\<lambda>l. logStudentId l = sid) ls = []"
    by (simp add: lastLogOf_def split: list.splits)
  then show ?thesis by (simp add: filter_empty_conv)
qed

lemma lastLogOf_Some:
  assumes "lastLogOf ls sid = Some l"
  shows "l \<in> set ls \<and> logStudentId l = sid \<and>
         (\<forall>x \<in> set ls. logStudentId x = sid \<longrightarrow> logCreatedAt x \<le> logCreatedAt l)"
proof -
  let ?own = "filter (\<lambda>l. logStudentId l = sid) ls"
  obtain a rest where f: "?own = a # rest" and l: "l = foldl newer a rest"
    using assms by (auto simp: lastLogOf_def split: list.splits)
  have "l \<in> set ?own"
    using foldl_newer_mem[of a rest] f l by simp
  moreover have "logCreatedAt x \<le> logCreatedAt l" if "x \<in> set ?own" for x
  proof -
    have "x = a \<or> x \<in> set rest" using that f by simp
    then show ?thesis
      using foldl_newer_ge[of a rest] foldl_newer_max[of x rest a] l by auto
  qed
  ultimately show ?thesis by auto
qed

lemma find_Some_mem: "find P xs = Some x \<Longrightarrow> P x \<and> x \<in> set xs"
  by (auto simp: find_Some_iff)

lemma findOneAndUpdate_no_match:
  "\<forall>x \<in> set xs. \<not> P x \<Longrightarrow> findOneAndUpdate P f xs = (xs, None)"
  by (induction xs) auto

lemma findOneAndUpdate_None:
  "findOneAndUpdate P f xs = (ys, None) \<Longrightarrow> \<forall>x \<in> set xs. \<not> P x"
  by (induction xs arbitrary: ys) (auto split: prod.splits if_splits)

lemma leaveById_None: "leaveById d i = None \<longleftrightarrow> (\<forall>l \<in> set (leaves d). leaveId l \<noteq> i)"
  by (auto simp: leaveById_def find_None_iff)

lemma findOneAndUpdate_length: "length (fst (findOneAndUpdate P f xs)) = length xs"
  by (induction xs) (auto split: prod.splits)

lemma findOneAndUpdate_others:
  "k < length xs \<Longrightarrow> \<not> P (xs ! k) \<Longrightarrow> fst (findOneAndUpdate P f xs) ! k = xs ! k"
  by (induction xs arbitrary: k) (auto simp: nth_Cons split: prod.splits nat.splits)

text \<open>A successful \<open>findOneAndUpdate\<close> rewrites the first matching document and nothing
  else.\<close>

lemma findOneAndUpdate_Some:
  "findOneAndUpdate P f xs = (ys, Some y) \<Longrightarrow>
     \<exists>pre x post. xs = pre @ x # post \<and> (\<forall>z \<in> set pre. \<not> P z) \<and> P x \<and> y = f x
        \<and> ys = pre @ f x # post"
proof (induction xs arbitrary: ys)
  case Nil
  then show ?case by simp
next
  case (Cons a xs)
  show ?case
  proof (cases "P a")
    case True
    then have "a # xs = [] @ a # xs \<and> (\<forall>z \<in> set []. \<not> P z) \<and> P a \<and> y = f a
        \<and> ys = [] @ f a # xs"
      using Cons.prems by auto
    then show ?thesis by blast
  next
    case False
    then obtain ys' where r: "findOneAndUpdate P f xs = (ys', Some y)" and ys: "ys = a # ys'"
      using Cons.prems by (auto split: prod.splits)
    from Cons.IH[OF r] obtain pre x post where
      "xs = pre @ x # post" "\<forall>z \<in> set pre. \<not> P z" "P x" "y = f x" "ys' = pre @ f x # post"
      by blast
    then have "a # xs = (a # pre) @ x # post \<and> (\<forall>z \<in> set (a # pre). \<not> P z) \<and> P x
        \<and> y = f x \<and> ys = (a # pre) @ f x # post"
      using False ys by simp
    then show ?thesis by blast
  qed
qed

lemma studentById_oid: "studentById d i = Some s \<Longrightarrow> studentOid s = i"
  by (auto simp: studentById_def find_Some_iff)

text \<open>\<^verbatim>\<open>existing.studentId?._id?.toString() !== parent.studentId.toString()\<close> on the
  populated request: true when the student record is gone or is another student's.\<close>

lemma populated_mismatch:
  "(case studentById d i of None \<Rightarrow> True | Some s \<Rightarrow> studentOid s \<noteq> j)
     = (i \<noteq> j \<or> studentById d i = None)"
  using studentById_oid[of d i] by (cases "studentById d i") auto

section \<open>Entry/exit toggle\<close>

text \<open>A log of the student that is newer than every other log of the student is the one
  \<open>lastLogOf\<close> finds.\<close>

lemma lastLogOf_newest:
  assumes "l \<in> set ls" and "logStudentId l = sid"
      and "\<forall>x \<in> set ls. logStudentId x = sid \<and> x \<noteq> l \<longrightarrow> logCreatedAt x < logCreatedAt l"
  shows "lastLogOf ls sid = Some l"
proof -
  have "lastLogOf ls sid \<noteq> None"
    using assms(1,2) lastLogOf_None[of ls sid] by blast
  then obtain l0 where l0: "lastLogOf ls sid = Some l0"
    by auto
  have props: "l0 \<in> set ls" "logStudentId l0 = sid" "logCreatedAt l \<le> logCreatedAt l0"
    using lastLogOf_Some[OF l0] assms(1,2) by auto
  have "l0 = l"
  proof (rule ccontr)
    assume "l0 \<noteq> l"
    then have "logCreatedAt l0 < logCreatedAt l"
      using assms(3) props(1,2) by blast
    then show False using props(3) by simp
  qed
  then show ?thesis using l0 by simp
qed

lemma scTwoLogs_logs:
  "scTwoLogs = scDb\<lparr>logs := [\<lparr> logId = 40, logStudentId = 1, inTime = Some 500, outTime = Some 600,
            logStatus = OUT, logMethod = Manual, logCreatedAt = 500 \<rparr>,
          \<lparr> logId = 42, logStudentId = 1, inTime = Some 700, outTime = None,
            logStatus = IN, logMethod = QR, logCreatedAt = 700 \<rparr>]\<rparr>"
  by (simp add: scTwoLogs_def sc_defs lookup_defs targetStudent_def lastLogOf_def newer_def
        markEntry_def markExit_def saveLog_def castMethod_def methodOrDefault_def Let_def)

text \<open>
  Claim C7, as amended. Let \<open>sid\<close> be the student the request resolves to. \<open>lastLogOf\<close> is
  the student's most recent log by creation time: it finds nothing exactly when the
  student has no log, what it finds is a log of the student that none of the student's
  logs was created after, and a log of the student created after all the student's other
  logs is the one it finds. \<^verbatim>\<open>markEntry\<close> answers the conflict (status 400, "Student is
  already marked as IN") exactly when that most recent log has status IN; otherwise, with
  a capture method of the schema's enum (QR, Biometric, Manual; Manual when the body has
  none), it appends a new log with status IN, \<open>inTime = now\<close> and no \<open>outTime\<close>, and with any
  other method it answers 500 and writes nothing. \<^verbatim>\<open>markExit\<close> answers the conflict
  (status 400, "Student is not currently marked as IN") exactly when the student has no
  log or the most recent one has status OUT; otherwise, with a method of the enum, it
  rewrites that most recent log in place with \<open>outTime = now\<close>, status OUT and the method
  of the exit request, and with any other method it answers 500 and writes nothing.
\<close>

theorem markEntry_markExit_toggle:
  assumes tgt: "targetStudent d u (bodyStudentId b) = Inr sid"
  shows "(lastLogOf (logs d) sid = None \<longleftrightarrow> (\<forall>l \<in> set (logs d). logStudentId l \<noteq> sid))
       \<and> (\<forall>l. lastLogOf (logs d) sid = Some l \<longrightarrow>
              l \<in> set (logs d) \<and> logStudentId l = sid
              \<and> (\<forall>x \<in> set (logs d). logStudentId x = sid
                     \<longrightarrow> logCreatedAt x \<le> logCreatedAt l))
       \<and> (\<forall>l \<in> set (logs d).
              logStudentId l = sid
              \<and> (\<forall>x \<in> set (logs d). logStudentId x = sid \<and> x \<noteq> l
                     \<longrightarrow> logCreatedAt x < logCreatedAt l)
            \<longrightarrow> lastLogOf (logs d) sid = Some l)
       \<and> (snd (markEntry e d u b) = Inl (400, Msg ''Student is already marked as IN'')
            \<longleftrightarrow> (\<exists>l. lastLogOf (logs d) sid = Some l \<and> logStatus l = IN))
       \<and> (\<forall>m. \<not> (\<exists>l. lastLogOf (logs d) sid = Some l \<and> logStatus l = IN)
               \<and> castMethod (methodOrDefault (bodyMethod b)) = Some m
            \<longrightarrow> markEntry e d u b =
                  (let entryLog = \<lparr> logId = newId e, logStudentId = sid, inTime = Some (now e),
                                    outTime = None, logStatus = IN, logMethod = m,
                                    logCreatedAt = now e \<rparr>
                   in (d\<lparr>logs := logs d @ [entryLog]\<rparr>, Inr entryLog)))
       \<and> (\<not> (\<exists>l. lastLogOf (logs d) sid = Some l \<and> logStatus l = IN)
               \<and> castMethod (methodOrDefault (bodyMethod b)) = None
            \<longrightarrow> markEntry e d u b = (d, Inl (500, ErrorMessage ValidationFailed)))
       \<and> (snd (markExit e d u b) = Inl (400, Msg ''Student is not currently marked as IN'')
            \<longleftrightarrow> (lastLogOf (logs d) sid = None
                 \<or> (\<exists>l. lastLogOf (logs d) sid = Some l \<and> logStatus l = OUT)))
       \<and> (\<forall>m l. lastLogOf (logs d) sid = Some l \<and> logStatus l \<noteq> OUT
               \<and> castMethod (methodOrDefault (bodyMethod b)) = Some m
            \<longrightarrow> markExit e d u b =
                  (let l' = l\<lparr> outTime := Some (now e), logStatus := OUT, logMethod := m \<rparr>
                   in (d\<lparr>logs := map (\<lambda>x. if logId x = logId l then l' else x) (logs d)\<rparr>,
                       Inr l')))
       \<and> (\<forall>l. lastLogOf (logs d) sid = Some l \<and> logStatus l \<noteq> OUT
               \<and> castMethod (methodOrDefault (bodyMethod b)) = None
            \<longrightarrow> markExit e d u b = (d, Inl (500, ErrorMessage ValidationFailed)))"
proof -
  let ?isIn = "\<exists>l. lastLogOf (logs d) sid = Some l \<and> logStatus l = IN"
  have none: "lastLogOf (logs d) sid = None \<longleftrightarrow> (\<forall>l \<in> set (logs d). logStudentId l \<noteq> sid)"
    by (rule lastLogOf_None)
  have some: "\<forall>l. lastLogOf (logs d) sid = Some l \<longrightarrow>
              l \<in> set (logs d) \<and> logStudentId l = sid
              \<and> (\<forall>x \<in> set (logs d). logStudentId x = sid
                     \<longrightarrow> logCreatedAt x \<le> logCreatedAt l)"
    using lastLogOf_Some[of "logs d" sid] by blast
  have newest: "\<forall>l \<in> set (logs d).
              logStudentId l = sid
              \<and> (\<forall>x \<in> set (logs d). logStudentId x = sid \<and> x \<noteq> l
                     \<longrightarrow> logCreatedAt x < logCreatedAt l)
            \<longrightarrow> lastLogOf (logs d) sid = Some l"
    using lastLogOf_newest[of _ "logs d" sid] by blast
  have guardIn: "(case lastLogOf (logs d) sid of None \<Rightarrow> False
                  | Some lastLog \<Rightarrow> logStatus lastLog = IN) = ?isIn"
    by (cases "lastLogOf (logs d) sid") simp_all
  have entry: "markEntry e d u b =
     (if ?isIn then (d, Inl (400, Msg ''Student is already marked as IN''))
      else (case castMethod (methodOrDefault (bodyMethod b)) of
              None \<Rightarrow> (d, Inl (500, ErrorMessage ValidationFailed))
            | Some m \<Rightarrow>
                let entryLog = \<lparr> logId = newId e, logStudentId = sid,
                                 inTime = Some (now e), outTime = None,
                                 logStatus = IN, logMethod = m, logCreatedAt = now e \<rparr>
                in (d\<lparr>logs := logs d @ [entryLog]\<rparr>, Inr entryLog)))"
    unfolding markEntry_def tgt guardIn[symmetric] by simp
  have e1: "snd (markEntry e d u b) = Inl (400, Msg ''Student is already marked as IN'')
            \<longleftrightarrow> ?isIn"
    unfolding entry by (simp add: Let_def split: option.splits)
  have e2: "\<forall>m. \<not> ?isIn \<and> castMethod (methodOrDefault (bodyMethod b)) = Some m
            \<longrightarrow> markEntry e d u b =
                  (let entryLog = \<lparr> logId = newId e, logStudentId = sid, inTime = Some (now e),
                                    outTime = None, logStatus = IN, logMethod = m,
                                    logCreatedAt = now e \<rparr>
                   in (d\<lparr>logs := logs d @ [entryLog]\<rparr>, Inr entryLog))"
    unfolding entry by auto
  have e3: "\<not> ?isIn \<and> castMethod (methodOrDefault (bodyMethod b)) = None
            \<longrightarrow> markEntry e d u b = (d, Inl (500, ErrorMessage ValidationFailed))"
    unfolding entry by auto
  have exit: "markExit e d u b =
     (case lastLogOf (logs d) sid of
        None \<Rightarrow> (d, Inl (400, Msg ''Student is not currently marked as IN''))
      | Some lastLog \<Rightarrow>
          if logStatus lastLog = OUT
          then (d, Inl (400, Msg ''Student is not currently marked as IN''))
          else (case castMethod (methodOrDefault (bodyMethod b)) of
                  None \<Rightarrow> (d, Inl (500, ErrorMessage ValidationFailed))
                | Some m \<Rightarrow>
                    let lastLog' = lastLog\<lparr> outTime := Some (now e), logStatus := OUT,
                                            logMethod := m \<rparr>
                    in (d\<lparr>logs := saveLog lastLog' (logs d)\<rparr>, Inr lastLog')))"
    unfolding markExit_def tgt by simp
  have x1: "snd (markExit e d u b) = Inl (400, Msg ''Student is not currently marked as IN'')
            \<longleftrightarrow> (lastLogOf (logs d) sid = None
                 \<or> (\<exists>l. lastLogOf (logs d) sid = Some l \<and> logStatus l = OUT))"
    unfolding exit by (simp add: Let_def split: option.splits)
  have x2: "\<forall>m l. lastLogOf (logs d) sid = Some l \<and> logStatus l \<noteq> OUT
               \<and> castMethod (methodOrDefault (bodyMethod b)) = Some m
            \<longrightarrow> markExit e d u b =
                  (let l' = l\<lparr> outTime := Some (now e), logStatus := OUT, logMethod := m \<rparr>
                   in (d\<lparr>logs := map (\<lambda>x. if logId x = logId l then l' else x) (logs d)\<rparr>,
                       Inr l'))"
    unfolding exit by (auto simp: saveLog_def Let_def)
  have x3: "\<forall>l. lastLogOf (logs d) sid = Some l \<and> logStatus l \<noteq> OUT
               \<and> castMethod (methodOrDefault (bodyMethod b)) = None
            \<longrightarrow> markExit e d u b = (d, Inl (500, ErrorMessage ValidationFailed))"
    unfolding exit by auto
  show ?thesis
    by (intro conjI) (rule none some newest e1 e2 e3 x1 x2 x3)+
qed

text \<open>With no log yet, the student's entry at 500 is recorded and an exit is refused. With
  the two logs of \<open>scTwoLogs\<close>, the newer one (created at 700, IN) is the most recent: a
  further entry is refused and the exit at 800 rewrites that log and leaves the older one
  alone, also when the newer log is stored before the older one.\<close>

theorem markEntry_markExit_toggle_witness:
  "targetStudent scDb scStudent (bodyStudentId (scEntry ''QR'')) = Inr 1
   \<and> lastLogOf (logs scDb) 1 = None
   \<and> markEntry (scEnv 500 40) scDb scStudent (scEntry ''QR'')
       = (scDb\<lparr>logs := [\<lparr> logId = 40, logStudentId = 1, inTime = Some 500, outTime = None,
            logStatus = IN, logMethod = QR, logCreatedAt = 500 \<rparr>]\<rparr>,
          Inr \<lparr> logId = 40, logStudentId = 1, inTime = Some 500, outTime = None,
            logStatus = IN, logMethod = QR, logCreatedAt = 500 \<rparr>)
   \<and> snd (markExit (scEnv 500 40) scDb scStudent (scEntry ''QR''))
       = Inl (400, Msg ''Student is not currently marked as IN'')
   \<and> targetStudent scTwoLogs scStudent (bodyStudentId (scEntry ''Manual'')) = Inr 1
   \<and> logs scTwoLogs
       = [\<lparr> logId = 40, logStudentId = 1, inTime = Some 500, outTime = Some 600,
            logStatus = OUT, logMethod = Manual, logCreatedAt = 500 \<rparr>,
          \<lparr> logId = 42, logStudentId = 1, inTime = Some 700, outTime = None,
            logStatus = IN, logMethod = QR, logCreatedAt = 700 \<rparr>]
   \<and> lastLogOf (logs scTwoLogs) 1
       = Some \<lparr> logId = 42, logStudentId = 1, inTime = Some 700, outTime = None,
            logStatus = IN, logMethod = QR, logCreatedAt = 700 \<rparr>
   \<and> snd (markEntry (scEnv 800 43) scTwoLogs scStudent (scEntry ''Manual''))
       = Inl (400, Msg ''Student is already marked as IN'')
   \<and> markExit (scEnv 800 43) scTwoLogs scStudent (scEntry ''Manual'')
       = (scDb\<lparr>logs := [\<lparr> logId = 40, logStudentId = 1, inTime = Some 500, outTime = Some 600,
            logStatus = OUT, logMethod = Manual, logCreatedAt = 500 \<rparr>,
          \<lparr> logId = 42, logStudentId = 1, inTime = Some 700, outTime = Some 800,
            logStatus = OUT, logMethod = Manual, logCreatedAt = 700 \<rparr>]\<rparr>,
          Inr \<lparr> logId = 42, logStudentId = 1, inTime = Some 700, outTime = Some 800,
            logStatus = OUT, logMethod = Manual, logCreatedAt = 700 \<rparr>)
   \<and> lastLogOf (rev (logs scTwoLogs)) 1
       = Some \<lparr> logId = 42, logStudentId = 1, inTime = Some 700, outTime = None,
            logStatus = IN, logMethod = QR, logCreatedAt = 700 \<rparr>
   \<and> markExit (scEnv 800 43) (scTwoLogs\<lparr>logs := rev (logs scTwoLogs)\<rparr>) scStudent
        (scEntry ''Manual'')
       = (scDb\<lparr>logs := [\<lparr> logId = 42, logStudentId = 1, inTime = Some 700, outTime = Some 800,
            logStatus = OUT, logMethod = Manual, logCreatedAt = 700 \<rparr>,
          \<lparr> logId = 40, logStudentId = 1, inTime = Some 500, outTime = Some 600,
            logStatus = OUT, logMethod = Manual, logCreatedAt = 500 \<rparr>]\<rparr>,
          Inr \<lparr> logId = 42, logStudentId = 1, inTime = Some 700, outTime = Some 800,
            logStatus = OUT, logMethod = Manual, logCreatedAt = 700 \<rparr>)"
proof -
  have t0: "targetStudent scDb scStudent (bodyStudentId (scEntry ''QR'')) = Inr 1"
    by (simp add: sc_defs lookup_defs targetStudent_def)
  have l0: "lastLogOf (logs scDb) 1 = None"
    by (simp add: scDb_def lastLogOf_def)
  have t2: "targetStudent scTwoLogs scStudent (bodyStudentId (scEntry ''Manual'')) = Inr 1"
    by (simp add: scTwoLogs_logs sc_defs lookup_defs targetStudent_def)
  have lg: "logs scTwoLogs
         = [\<lparr> logId = 40, logStudentId = 1, inTime = Some 500, outTime = Some 600,
            logStatus = OUT, logMethod = Manual, logCreatedAt = 500 \<rparr>,
            \<lparr> logId = 42, logStudentId = 1, inTime = Some 700, outTime = None,
            logStatus = IN, logMethod = QR, logCreatedAt = 700 \<rparr>]"
    by (simp add: scTwoLogs_logs)
  have l2: "lastLogOf (logs scTwoLogs) 1
         = Some \<lparr> logId = 42, logStudentId = 1, inTime = Some 700, outTime = None,
            logStatus = IN, logMethod = QR, logCreatedAt = 700 \<rparr>"
    by (simp add: scTwoLogs_logs lastLogOf_def newer_def)
  have l3: "lastLogOf (rev (logs scTwoLogs)) 1
         = Some \<lparr> logId = 42, logStudentId = 1, inTime = Some 700, outTime = None,
            logStatus = IN, logMethod = QR, logCreatedAt = 700 \<rparr>"
    by (simp add: scTwoLogs_logs lastLogOf_def newer_def)
  have t3: "targetStudent (scTwoLogs\<lparr>logs := rev (logs scTwoLogs)\<rparr>) scStudent
              (bodyStudentId (scEntry ''Manual'')) = Inr 1"
    by (simp add: scTwoLogs_logs sc_defs lookup_defs targetStudent_def)
  have m1: "castMethod (methodOrDefault (bodyMethod (scEntry ''QR''))) = Some QR"
    by (simp add: scEntry_def castMethod_def methodOrDefault_def)
  have m2: "castMethod (methodOrDefault (bodyMethod (scEntry ''Manual''))) = Some Manual"
    by (simp add: scEntry_def castMethod_def methodOrDefault_def)
  note A = markEntry_markExit_toggle[OF t0, of "scEnv 500 40"]
  note B = markEntry_markExit_toggle[OF t2, of "scEnv 800 43"]
  note C = markEntry_markExit_toggle[OF t3, of "scEnv 800 43"]
  note A5 = A[THEN conjunct2, THEN conjunct2, THEN conjunct2, THEN conjunct2, THEN conjunct1]
  note A7 = A[THEN conjunct2, THEN conjunct2, THEN conjunct2, THEN conjunct2, THEN conjunct2, THEN conjunct2, THEN conjunct1]
  note B4 = B[THEN conjunct2, THEN conjunct2, THEN conjunct2, THEN conjunct1]
  note B8 = B[THEN conjunct2, THEN conjunct2, THEN conjunct2, THEN conjunct2, THEN conjunct2, THEN conjunct2, THEN conjunct2, THEN conjunct1]
  note C8 = C[THEN conjunct2, THEN conjunct2, THEN conjunct2, THEN conjunct2, THEN conjunct2, THEN conjunct2, THEN conjunct2, THEN conjunct1, simplified]
  have entry0: "markEntry (scEnv 500 40) scDb scStudent (scEntry ''QR'')
         = (scDb\<lparr>logs := [\<lparr> logId = 40, logStudentId = 1, inTime = Some 500, outTime = None,
            logStatus = IN, logMethod = QR, logCreatedAt = 500 \<rparr>]\<rparr>,
            Inr \<lparr> logId = 40, logStudentId = 1, inTime = Some 500, outTime = None,
            logStatus = IN, logMethod = QR, logCreatedAt = 500 \<rparr>)"
    using A5 l0 m1 by (simp add: scEnv_def scDb_def Let_def)
  have exit0: "snd (markExit (scEnv 500 40) scDb scStudent (scEntry ''QR''))
         = Inl (400, Msg ''Student is not currently marked as IN'')"
    using A7 l0 by simp
  have entry2: "snd (markEntry (scEnv 800 43) scTwoLogs scStudent (scEntry ''Manual''))
         = Inl (400, Msg ''Student is already marked as IN'')"
    using B4 l2 by simp
  have exit2: "markExit (scEnv 800 43) scTwoLogs scStudent (scEntry ''Manual'')
         = (scDb\<lparr>logs := [\<lparr> logId = 40, logStudentId = 1, inTime = Some 500, outTime = Some 600,
            logStatus = OUT, logMethod = Manual, logCreatedAt = 500 \<rparr>,
            \<lparr> logId = 42, logStudentId = 1, inTime = Some 700, outTime = Some 800,
            logStatus = OUT, logMethod = Manual, logCreatedAt = 700 \<rparr>]\<rparr>,
            Inr \<lparr> logId = 42, logStudentId = 1, inTime = Some 700, outTime = Some 800,
            logStatus = OUT, logMethod = Manual, logCreatedAt = 700 \<rparr>)"
    using B8 l2 m2 by (simp add: scTwoLogs_logs scEnv_def Let_def)
  have exit3: "markExit (scEnv 800 43) (scTwoLogs\<lparr>logs := rev (logs scTwoLogs)\<rparr>) scStudent
          (scEntry ''Manual'')
         = (scDb\<lparr>logs := [\<lparr> logId = 42, logStudentId = 1, inTime = Some 700, outTime = Some 800,
            logStatus = OUT, logMethod = Manual, logCreatedAt = 700 \<rparr>,
            \<lparr> logId = 40, logStudentId = 1, inTime = Some 500, outTime = Some 600,
            logStatus = OUT, logMethod = Manual, logCreatedAt = 500 \<rparr>]\<rparr>,
            Inr \<lparr> logId = 42, logStudentId = 1, inTime = Some 700, outTime = Some 800,
            logStatus = OUT, logMethod = Manual, logCreatedAt = 700 \<rparr>)"
    using C8 l3 m2 by (simp add: scTwoLogs_logs scEnv_def Let_def)
  show ?thesis
    by (intro conjI) (rule t0 l0 entry0 exit0 t2 lg l2 entry2 exit2 l3 exit3)+
qed

text \<open>Claim C7 as stated fails for a capture method outside the enum: the student has no
  log, so there is no conflict, yet no log is created; the answer is 500.\<close>

theorem markEntry_unknown_method_counterexample:
  "targetStudent scDb scStudent (bodyStudentId (scEntry ''NFC'')) = Inr 1
   \<and> lastLogOf (logs scDb) 1 = None
   \<and> markEntry (scEnv 500 40) scDb scStudent (scEntry ''NFC'')
       = (scDb, Inl (500, ErrorMessage ValidationFailed))"
  by (simp add: sc_defs lookup_defs targetStudent_def lastLogOf_def markEntry_def
        castMethod_def methodOrDefault_def)

lemma markEntry_logOk:
  "\<forall>l \<in> set (logs d). logOk l \<Longrightarrow> \<forall>l \<in> set (logs (fst (markEntry e d u b))). logOk l"
  by (auto simp: markEntry_def Let_def logOk_def split: sum.splits option.splits)

lemma markExit_logOk:
  "\<forall>l \<in> set (logs d). logOk l \<Longrightarrow> \<forall>l \<in> set (logs (fst (markExit e d u b))). logOk l"
  by (auto simp: markExit_def Let_def logOk_def saveLog_def dest: lastLogOf_Some
           split: sum.splits option.splits)

text \<open>
  Claim C10. \<^verbatim>\<open>markEntry\<close> creates every log with status IN, an \<open>inTime\<close> and no
  \<open>outTime\<close>, and only \<^verbatim>\<open>markExit\<close> sets \<open>outTime\<close>, together with status OUT. Hence
  every log of every reachable database has an \<open>inTime\<close>, has an \<open>outTime\<close> when its
  status is OUT, and has none when its status is IN.
\<close>

theorem log_invariant:
  assumes "logsReachable d" and "l \<in> set (logs d)"
  shows "inTime l \<noteq> None \<and> (logStatus l = OUT \<longrightarrow> outTime l \<noteq> None)
           \<and> (logStatus l = IN \<longrightarrow> outTime l = None)"
proof -
  have "\<forall>l \<in> set (logs d). logOk l"
    using assms(1)
  proof (induction rule: logsReachable.induct)
    case (noLogs d)
    then show ?case by simp
  next
    case (entry d e u b)
    then show ?case by (intro markEntry_logOk)
  next
    case (exit d e u b)
    then show ?case by (intro markExit_logOk)
  next
    case (other d d')
    then show ?case by simp
  qed
  then show ?thesis using assms(2) by (simp add: logOk_def)
qed

lemma scenario_logs_reachable:
  "logsReachable (fst (markExit (scEnv 600 41)
       (fst (markEntry (scEnv 500 40) scDb scStudent (scEntry ''QR'')))
       scStudent (scEntry ''Manual'')))"
  by (intro logsReachable.exit logsReachable.entry logsReachable.noLogs) (simp add: scDb_def)

text \<open>The database after the scenario's entry and exit is reachable and holds the one
  log, OUT, with both times.\<close>

theorem log_invariant_witness:
  "logsReachable (fst (markExit (scEnv 600 41)
       (fst (markEntry (scEnv 500 40) scDb scStudent (scEntry ''QR'')))
       scStudent (scEntry ''Manual'')))
   \<and> logs (fst (markExit (scEnv 600 41)
       (fst (markEntry (scEnv 500 40) scDb scStudent (scEntry ''QR'')))
       scStudent (scEntry ''Manual'')))
     = [\<lparr> logId = 40, logStudentId = 1, inTime = Some 500, outTime = Some 600,
          logStatus = OUT, logMethod = Manual, logCreatedAt = 500 \<rparr>]
   \<and> inTime \<lparr> logId = 40, logStudentId = 1, inTime = Some 500, outTime = Some 600,
               logStatus = OUT, logMethod = Manual, logCreatedAt = 500 \<rparr> \<noteq> None
   \<and> outTime \<lparr> logId = 40, logStudentId = 1, inTime = Some 500, outTime = Some 600,
                logStatus = OUT, logMethod = Manual, logCreatedAt = 500 \<rparr> \<noteq> None"
proof -
  have logs: "logs (fst (markExit (scEnv 600 41)
       (fst (markEntry (scEnv 500 40) scDb scStudent (scEntry ''QR'')))
       scStudent (scEntry ''Manual'')))
     = [\<lparr> logId = 40, logStudentId = 1, inTime = Some 500, outTime = Some 600,
          logStatus = OUT, logMethod = Manual, logCreatedAt = 500 \<rparr>]"
    by (simp add: sc_defs lookup_defs targetStudent_def lastLogOf_def newer_def markEntry_def
        markExit_def saveLog_def castMethod_def methodOrDefault_def Let_def)
  show ?thesis
    using scenario_logs_reachable logs
      log_invariant[OF scenario_logs_reachable,
        of "\<lparr> logId = 40, logStudentId = 1, inTime = Some 500, outTime = Some 600,
             logStatus = OUT, logMethod = Manual, logCreatedAt = 500 \<rparr>"]
    by simp
qed

section \<open>Leave workflow\<close>

text \<open>
  Claim C2. When no request with the given id has status ApprovedByParent,
  \<^verbatim>\<open>updateLeaveStatus\<close> leaves the whole database as it was, and for a decision of
  Approved or Rejected it answers 409 (Conflict) when a request with that id exists and
  404 (NotFound) when none does.
\<close>

theorem updateLeaveStatus_guard:
  assumes "\<forall>l \<in> set (leaves d). leaveId l = i \<longrightarrow> leaveStatus l \<noteq> ApprovedByParent"
  shows "fst (updateLeaveStatus e d u i b) = d
       \<and> (bodyStatus b = Some ''Approved'' \<or> bodyStatus b = Some ''Rejected'' \<longrightarrow>
            snd (updateLeaveStatus e d u i b) =
              (if \<exists>l \<in> set (leaves d). leaveId l = i
               then Inl (409, Msg ''This outing request was already processed by warden'')
               else Inl (404, Msg ''Leave request not found'')))"
proof -
  have nm: "findOneAndUpdate (\<lambda>l. leaveId l = i \<and> leaveStatus l = ApprovedByParent) f (leaves d)
              = (leaves d, None)" for f
    using assms by (intro findOneAndUpdate_no_match) auto
  show ?thesis
    using leaveById_None[of d i]
    by (auto simp: updateLeaveStatus_def nm split: option.splits)
qed

text \<open>The request the scenario's student submits is PendingParent: the warden's approval
  of it is answered 409, that of an unknown id 404, and the database stays as it was.\<close>

theorem updateLeaveStatus_guard_witness:
  "(let d = fst (createLeaveRequest (scEnv 50 7) scDb scStudent (scLeaveBody 100 300)) in
     map leaveId (leaves d) = [7] \<and> map leaveStatus (leaves d) = [PendingParent] \<and>
     updateLeaveStatus (scEnv 60 8) d scWarden 7 (scDecision ''Approved'')
       = (d, Inl (409, Msg ''This outing request was already processed by warden'')) \<and>
     updateLeaveStatus (scEnv 60 8) d scWarden 9 (scDecision ''Approved'')
       = (d, Inl (404, Msg ''Leave request not found'')))"
  using updateLeaveStatus_guard[of "fst (createLeaveRequest (scEnv 50 7) scDb scStudent
            (scLeaveBody 100 300))" 7 "scEnv 60 8" scWarden "scDecision ''Approved''"]
        updateLeaveStatus_guard[of "fst (createLeaveRequest (scEnv 50 7) scDb scStudent
            (scLeaveBody 100 300))" 9 "scEnv 60 8" scWarden "scDecision ''Approved''"]
  by (simp add: sc_defs lookup_defs createLeaveRequest_def newLeave_def castType_def
        preSave_def trim_def isSpace_def Let_def prod_eq_iff)

text \<open>
  Claim C3, as amended. For a decision of Approved or Rejected by a user with a parent
  profile, \<^verbatim>\<open>parentApproveOrReject\<close> changes nothing but the request collection, and
  there only requests matching \<open>{id, student of the parent, status PendingParent}\<close>.
  When no request matches, the database is returned as it was and the answer is 404
  when no request has the id, 403 when the request is another student's or its student
  record no longer exists, and 409 when the request is the parent's student's, that
  student's record exists, and the status is no longer PendingParent.
\<close>

theorem parentApproveOrReject_conditional:
  assumes dec: "bodyStatus b = Some ''Approved'' \<or> bodyStatus b = Some ''Rejected''"
      and par: "parentByUser d (userId u) = Some p"
  shows "(\<exists>ls. fst (parentApproveOrReject e d u i b) = d\<lparr>leaves := ls\<rparr>
              \<and> length ls = length (leaves d)
              \<and> (\<forall>k < length ls.
                    \<not> (leaveId (leaves d ! k) = i
                       \<and> leaveStudentId (leaves d ! k) = parentStudentId p
                       \<and> leaveStatus (leaves d ! k) = PendingParent)
                    \<longrightarrow> ls ! k = leaves d ! k))
       \<and> ((\<forall>l \<in> set (leaves d). \<not> (leaveId l = i \<and> leaveStudentId l = parentStudentId p
                                      \<and> leaveStatus l = PendingParent)) \<longrightarrow>
            parentApproveOrReject e d u i b =
              (d, case leaveById d i of
                    None \<Rightarrow> Inl (404, Msg ''Leave request not found'')
                  | Some x \<Rightarrow>
                      if leaveStudentId x \<noteq> parentStudentId p
                         \<or> studentById d (leaveStudentId x) = None
                      then Inl (403, Msg ''Not authorized to approve this leave request'')
                      else Inl (409, Msg ''This outing request was already processed by parent'')))"
proof -
  let ?P = "\<lambda>l. leaveId l = i \<and> leaveStudentId l = parentStudentId p
                \<and> leaveStatus l = PendingParent"
  let ?f = "parentUpdate e u (bodyStatus b = Some ''Approved'') (bodyRejectionReason b)"
  obtain ls r where fu: "findOneAndUpdate ?P ?f (leaves d) = (ls, r)"
    by (cases "findOneAndUpdate ?P ?f (leaves d)") auto
  have len: "length ls = length (leaves d)"
    using findOneAndUpdate_length[of ?P ?f "leaves d"] fu by simp
  have oth: "\<forall>k < length ls. \<not> ?P (leaves d ! k) \<longrightarrow> ls ! k = leaves d ! k"
    using findOneAndUpdate_others[of _ "leaves d" ?P ?f] fu len by simp
  have none: "ls = leaves d" if "r = None"
    using findOneAndUpdate_None[of ?P ?f "leaves d" ls] fu that
      findOneAndUpdate_no_match[of "leaves d" ?P ?f] by simp
  have fst_eq: "fst (parentApproveOrReject e d u i b) = d\<lparr>leaves := ls\<rparr>"
    using dec par fu none
    by (cases r) (auto simp: parentApproveOrReject_def split: option.splits)
  have part1: "\<exists>ls. fst (parentApproveOrReject e d u i b) = d\<lparr>leaves := ls\<rparr>
              \<and> length ls = length (leaves d)
              \<and> (\<forall>k < length ls. \<not> ?P (leaves d ! k) \<longrightarrow> ls ! k = leaves d ! k)"
    using fst_eq len oth by blast
  have part2: "parentApproveOrReject e d u i b =
              (d, case leaveById d i of
                    None \<Rightarrow> Inl (404, Msg ''Leave request not found'')
                  | Some x \<Rightarrow>
                      if leaveStudentId x \<noteq> parentStudentId p
                         \<or> studentById d (leaveStudentId x) = None
                      then Inl (403, Msg ''Not authorized to approve this leave request'')
                      else Inl (409, Msg ''This outing request was already processed by parent''))"
    if nm: "\<forall>l \<in> set (leaves d). \<not> ?P l"
  proof -
    have "findOneAndUpdate ?P ?f (leaves d) = (leaves d, None)"
      using nm by (rule findOneAndUpdate_no_match)
    then show ?thesis
      using dec par
      by (auto simp: parentApproveOrReject_def populated_mismatch split: option.splits)
  qed
  show ?thesis using part1 part2 by blast
qed

text \<open>In the scenario the parent's rejection of the submitted request goes through, a
  decision on an unknown id is answered 404, and a second decision on the request the
  parent has approved is answered 409, the database staying as it was.\<close>

theorem parentApproveOrReject_conditional_witness:
  "parentByUser scSubmitted (userId scParent) = Some \<lparr> parentUserId = 20, parentStudentId = 1 \<rparr>
   \<and> map leaveStatus (leaves (fst (parentApproveOrReject (scEnv 60 8) scSubmitted scParent 7
          (scDecision ''Rejected'')))) = [RejectedByParent]
   \<and> parentApproveOrReject (scEnv 60 8) scSubmitted scParent 9 (scDecision ''Rejected'')
       = (scSubmitted, Inl (404, Msg ''Leave request not found''))
   \<and> parentByUser scParentApproved (userId scParent)
       = Some \<lparr> parentUserId = 20, parentStudentId = 1 \<rparr>
   \<and> parentApproveOrReject (scEnv 70 9) scParentApproved scParent 7 (scDecision ''Rejected'')
       = (scParentApproved,
          Inl (409, Msg ''This outing request was already processed by parent''))"
  using parentApproveOrReject_conditional[of "scDecision ''Rejected''" scSubmitted scParent
          "\<lparr> parentUserId = 20, parentStudentId = 1 \<rparr>" "scEnv 60 8" 9]
        parentApproveOrReject_conditional[of "scDecision ''Rejected''" scParentApproved scParent
          "\<lparr> parentUserId = 20, parentStudentId = 1 \<rparr>" "scEnv 70 9" 7]
  by (simp add: scSubmitted_def scParentApproved_def leave_eval)

text \<open>Claim C3 as stated fails where the student's record is gone: the request exists,
  carries the student the parent is linked to, and has left PendingParent, yet the answer
  is 403, not 409.\<close>

theorem parentApproveOrReject_conflict_counterexample:
  "map_option leaveStudentId (leaveById scOrphaned 7) = Some 1
   \<and> map_option leaveStatus (leaveById scOrphaned 7) = Some ApprovedByParent
   \<and> map_option parentStudentId (parentByUser scOrphaned (userId scParent)) = Some 1
   \<and> parentApproveOrReject (scEnv 70 9) scOrphaned scParent 7 (scDecision ''Approved'')
       = (scOrphaned, Inl (403, Msg ''Not authorized to approve this leave request''))"
  by (simp add: scOrphaned_def scParentApproved_def scSubmitted_def leave_eval)

text \<open>
  Claim C9, as amended. With reason, type and both dates present and the dates valid,
  \<^verbatim>\<open>createLeaveRequest\<close> rejects the request with status 400 ("Out date must be before
  in date") whenever the scheduled-in time is not strictly after the scheduled-out time,
  equal times included; for a caller with a student profile, a type of the enum and a
  reason that is not blank it accepts the request exactly when the scheduled-in time is
  strictly after the scheduled-out time, and then stores it as PendingParent with the
  single history entry of the student.
\<close>

theorem createLeaveRequest_dates:
  assumes "truthy (bodyReason b)" and "truthy (bodyType b)"
      and "bodyOutDate b = Some (ValidDate od)" and "bodyInDate b = Some (ValidDate idt)"
  shows "(idt \<le> od \<longrightarrow> createLeaveRequest e d u b
                         = (d, Inl (400, Msg ''Out date must be before in date'')))
       \<and> (\<forall>st t. studentByUser d (userId u) = Some st \<and> castType (the (bodyType b)) = Some t
                 \<and> trim (the (bodyReason b)) \<noteq> []
            \<longrightarrow> ((\<exists>l. snd (createLeaveRequest e d u b) = Inr l) \<longleftrightarrow> od < idt)
              \<and> (od < idt \<longrightarrow>
                    (\<exists>l. createLeaveRequest e d u b = (d\<lparr>leaves := leaves d @ [l]\<rparr>, Inr l)
                         \<and> leaveStudentId l = studentOid st \<and> leaveStatus l = PendingParent
                         \<and> outDate l = od \<and> inDate l = idt
                         \<and> map hStatus (statusHistory l) = [PendingParent]
                         \<and> map hRole (statusHistory l) = [student])))"
  using assms
  by (auto simp: createLeaveRequest_def newLeave_def preSave_def Let_def split: option.splits)

text \<open>The scenario's request (out at 100, in at 300) is accepted; with the two times
  exchanged it is rejected.\<close>

theorem createLeaveRequest_dates_witness:
  "truthy (bodyReason (scLeaveBody 100 300)) \<and> truthy (bodyType (scLeaveBody 100 300))
   \<and> bodyOutDate (scLeaveBody 100 300) = Some (ValidDate 100)
   \<and> bodyInDate (scLeaveBody 100 300) = Some (ValidDate 300)
   \<and> studentByUser scDb (userId scStudent)
       = Some \<lparr> studentOid = 1, studentUserId = 10, rollNumber = ''R-001'' \<rparr>
   \<and> castType (the (bodyType (scLeaveBody 100 300))) = Some HomeVisit
   \<and> trim (the (bodyReason (scLeaveBody 100 300))) \<noteq> []
   \<and> (\<exists>l. snd (createLeaveRequest (scEnv 50 7) scDb scStudent (scLeaveBody 100 300)) = Inr l)
   \<and> createLeaveRequest (scEnv 50 7) scDb scStudent (scLeaveBody 300 100)
       = (scDb, Inl (400, Msg ''Out date must be before in date''))"
  using createLeaveRequest_dates[of "scLeaveBody 100 300" 100 300 "scEnv 50 7" scDb scStudent]
        createLeaveRequest_dates[of "scLeaveBody 300 100" 300 100 "scEnv 50 7" scDb scStudent]
  by (simp add: sc_defs lookup_defs castType_def trim_def isSpace_def)

text \<open>Claim C9 as stated fails: a request whose scheduled-in time equals its
  scheduled-out time is rejected.\<close>

theorem createLeaveRequest_equal_dates_counterexample:
  "createLeaveRequest (scEnv 50 7) scDb scStudent (scLeaveBody 100 100)
     = (scDb, Inl (400, Msg ''Out date must be before in date''))"
  by (simp add: leave_eval)

text \<open>A reason of nothing but a no-break space is truthy for the controller, is trimmed
  to the empty string and fails the schema's \<open>required\<close>: the answer is 500 and nothing
  is stored.\<close>

lemma createLeaveRequest_blank_reason:
  "trim [CHR 0xA0] = []
   \<and> createLeaveRequest (scEnv 50 7) scDb scStudent
        ((scLeaveBody 100 300)\<lparr>bodyReason := Some [CHR 0xA0]\<rparr>)
       = (scDb, Inl (500, Msg ''Server error while creating leave request''))"
  by (simp add: leave_eval)

text \<open>The decisions of the parent and of the warden each append exactly one entry to the
  history of the request they update and leave the earlier entries, and every other
  request, as they were.\<close>

lemma parentApproveOrReject_history:
  assumes "parentApproveOrReject e d u i b = (d', Inr l')"
  shows "\<exists>pre l post h. leaves d = pre @ l # post \<and> leaves d' = pre @ l' # post
           \<and> statusHistory l' = statusHistory l @ [h] \<and> hRole h = parent"
proof -
  obtain p where par: "parentByUser d (userId u) = Some p"
    using assms by (auto simp: parentApproveOrReject_def split: if_splits option.splits)
  let ?P = "\<lambda>l. leaveId l = i \<and> leaveStudentId l = parentStudentId p
                \<and> leaveStatus l = PendingParent"
  let ?f = "parentUpdate e u (bodyStatus b = Some ''Approved'') (bodyRejectionReason b)"
  have fu: "findOneAndUpdate ?P ?f (leaves d) = (leaves d', Some l')"
    and d': "d' = d\<lparr>leaves := leaves d'\<rparr>"
    using assms par
    by (auto simp: parentApproveOrReject_def split: if_splits option.splits prod.splits)
  from findOneAndUpdate_Some[OF fu] obtain pre x post where
    "leaves d = pre @ x # post" "l' = ?f x" "leaves d' = pre @ ?f x # post"
    by blast
  then have "leaves d = pre @ x # post \<and> leaves d' = pre @ l' # post
      \<and> statusHistory l' = statusHistory x @ [last (statusHistory l')]
      \<and> hRole (last (statusHistory l')) = parent"
    by (simp add: parentUpdate_def)
  then show ?thesis by blast
qed

lemma updateLeaveStatus_history:
  assumes "updateLeaveStatus e d u i b = (d', Inr l')"
  shows "\<exists>pre l post h. leaves d = pre @ l # post \<and> leaves d' = pre @ l' # post
           \<and> statusHistory l' = statusHistory l @ [h] \<and> hRole h = warden"
proof -
  let ?P = "\<lambda>l. leaveId l = i \<and> leaveStatus l = ApprovedByParent"
  let ?f = "wardenUpdate e u (bodyStatus b = Some ''Approved'') (bodyRejectionReason b)"
  have fu: "findOneAndUpdate ?P ?f (leaves d) = (leaves d', Some l')"
    using assms
    by (auto simp: updateLeaveStatus_def split: if_splits option.splits prod.splits)
  from findOneAndUpdate_Some[OF fu] obtain pre x post where
    "leaves d = pre @ x # post" "l' = ?f x" "leaves d' = pre @ ?f x # post"
    by blast
  then have "leaves d = pre @ x # post \<and> leaves d' = pre @ l' # post
      \<and> statusHistory l' = statusHistory x @ [last (statusHistory l')]
      \<and> hRole (last (statusHistory l')) = warden"
    by (simp add: wardenUpdate_def)
  then show ?thesis by blast
qed

text \<open>The cancellation never touches a history: with distinct request ids, every
  successful \<^verbatim>\<open>cancelMyLeaveRequest\<close> leaves all histories as they were.\<close>

lemma find_id_unique:
  "distinct (map leaveId ls) \<Longrightarrow> find (\<lambda>l. leaveId l = i) ls = Some l \<Longrightarrow> x \<in> set ls
     \<Longrightarrow> leaveId x = leaveId l \<Longrightarrow> x = l"
  using find_Some_mem[of "\<lambda>l. leaveId l = i" ls l]
  by (auto simp: distinct_map dest: inj_onD)

lemma cancelMyLeaveRequest_keeps_history:
  assumes "cancelMyLeaveRequest d u i = (d', Inr l')"
      and "distinct (map leaveId (leaves d))"
  shows "map statusHistory (leaves d') = map statusHistory (leaves d)
         \<and> leaveStatus l' = Cancelled"
proof -
  obtain l where l: "leaveById d i = Some l"
    and d': "leaves d' = map (\<lambda>x. if leaveId x = leaveId l then l\<lparr>leaveStatus := Cancelled\<rparr>
                                  else x) (leaves d)"
    and l': "l' = l\<lparr>leaveStatus := Cancelled\<rparr>"
    using assms(1)
    by (auto simp: cancelMyLeaveRequest_def saveLeave_def split: option.splits if_splits)
  have "statusHistory (if leaveId x = leaveId l then l\<lparr>leaveStatus := Cancelled\<rparr> else x)
          = statusHistory x" if "x \<in> set (leaves d)" for x
    using find_id_unique[OF assms(2) l[unfolded leaveById_def] that] by auto
  then show ?thesis using d' l' by (simp add: map_eq_conv)
qed

text \<open>
  Claim C1 at the cancellation. The student of the scenario cancels the request just
  submitted: the cancellation succeeds and the status becomes Cancelled, yet the history
  still has the one entry it had before, where the claim asks for one more.
\<close>

theorem cancelMyLeaveRequest_history:
  "map leaveStatus (leaves scSubmitted) = [PendingParent]
   \<and> map (length \<circ> statusHistory) (leaves scSubmitted) = [1]
   \<and> map leaveStatus (leaves (fst (cancelMyLeaveRequest scSubmitted scStudent 7))) = [Cancelled]
   \<and> map (length \<circ> statusHistory) (leaves (fst (cancelMyLeaveRequest scSubmitted scStudent 7)))
       = [1]
   \<and> map_sum fst leaveStatus (snd (cancelMyLeaveRequest scSubmitted scStudent 7))
       = Inr Cancelled"
  by (simp add: scSubmitted_def leave_eval cancelMyLeaveRequest_def saveLeave_def)

section \<open>Fee reconciliation\<close>

text \<open>The total of the \<open>reduce\<close> is the sum of the amounts.\<close>

lemma foldl_amounts: "foldl (\<lambda>sum fee. sum + amount fee) a fs = a + sum_list (map amount fs)"
  by (induction fs arbitrary: a) simp_all

lemma totalDue_sum: "totalDue fs = sum_list (map amount fs)"
  by (simp add: totalDue_def foldl_amounts)

lemma saveFee_Inr: "saveFee f fs = Inr fs' \<Longrightarrow> fs' = map (\<lambda>g. if feeId g = feeId f then f else g) fs"
  by (auto simp: saveFee_def split: if_splits)

lemma saveAll_accepted:
  "snd (saveAll ps fs) = None \<Longrightarrow> distinct (map feeId ps) \<Longrightarrow>
   fst (saveAll ps fs)
     = map (\<lambda>g. case find (\<lambda>p. feeId p = feeId g) ps of None \<Rightarrow> g | Some p \<Rightarrow> p) fs"
proof (induction ps arbitrary: fs)
  case Nil then show ?case by simp
next
  case (Cons p ps)
  obtain fs1 where s1: "saveFee p fs = Inr fs1"
    using Cons.prems(1) by (cases "saveFee p fs") auto
  have fs1: "fs1 = map (\<lambda>g. if feeId g = feeId p then p else g) fs"
    using saveFee_Inr[OF s1] .
  have rest: "snd (saveAll ps fs1) = None" using Cons.prems(1) s1 by simp
  have dps: "distinct (map feeId ps)"
    using Cons.prems(2) by simp
  have "feeId q \<noteq> feeId p" if "q \<in> set ps" for q
  proof
    assume eq: "feeId q = feeId p"
    have "feeId q \<in> feeId ` set ps" using that by (rule imageI)
    moreover have "feeId p \<notin> feeId ` set ps" using Cons.prems(2) by simp
    ultimately show False using eq by simp
  qed
  then have notin: "\<forall>q \<in> set ps. feeId q \<noteq> feeId p"
    by blast
  have nf: "find (\<lambda>q. feeId q = feeId p) ps = None"
    using notin by (simp add: find_None_iff)
  have "fst (saveAll (p # ps) fs) = fst (saveAll ps fs1)" using s1 by simp
  also have "\<dots> = map (\<lambda>g. case find (\<lambda>q. feeId q = feeId g) ps of None \<Rightarrow> g | Some q \<Rightarrow> q) fs1"
    using Cons.IH[OF rest dps] .
  also have "\<dots> = map (\<lambda>g. case find (\<lambda>q. feeId q = feeId g) (p # ps) of None \<Rightarrow> g | Some q \<Rightarrow> q) fs"
    unfolding fs1 using nf by (auto simp: o_def)
  finally show ?case .
qed

lemma saveAll_subset: "set (fst (saveAll ps fs)) \<subseteq> set fs \<union> set ps"
proof (induction ps arbitrary: fs)
  case Nil then show ?case by simp
next
  case (Cons p ps)
  show ?case
  proof (cases "saveFee p fs")
    case (Inl err)
    then show ?thesis using Cons.IH[of fs] by auto
  next
    case (Inr fs1)
    have "set fs1 \<subseteq> set fs \<union> {p}" using saveFee_Inr[OF Inr] by auto
    then show ?thesis using Cons.IH[of fs1] Inr by auto
  qed
qed

lemma feeId_settled: "feeId (settled e u f) = feeId f"
  by (simp add: settled_def)

lemma set_pendingFees:
  "set (pendingFees d sid) = {f \<in> set (fees d). feeStudentId f = sid \<and> feeStatus f = FeePending}"
  by (auto simp: pendingFees_def)

lemma distinct_pendingFees:
  "distinct (map feeId (fees d)) \<Longrightarrow> distinct (map feeId (pendingFees d sid))"
  by (auto simp: pendingFees_def distinct_map intro: inj_on_subset)

lemma find_settled:
  assumes dist: "distinct (map feeId (fees d))" and g: "g \<in> set (fees d)"
  shows "find (\<lambda>p. feeId p = feeId g) (map (settled e u) (pendingFees d sid))
           = (if feeStudentId g = sid \<and> feeStatus g = FeePending then Some (settled e u g) else None)"
proof -
  have inj: "inj_on feeId (set (fees d))" using dist by (simp add: distinct_map)
  show ?thesis
  proof (cases "feeStudentId g = sid \<and> feeStatus g = FeePending")
    case True
    then have "g \<in> set (pendingFees d sid)" using g by (simp add: set_pendingFees)
    then have "find (\<lambda>p. feeId p = feeId g) (map (settled e u) (pendingFees d sid)) \<noteq> None"
      by (auto simp: find_None_iff feeId_settled)
    then obtain p where f: "find (\<lambda>p. feeId p = feeId g) (map (settled e u) (pendingFees d sid)) = Some p"
      by auto
    then obtain f' where "f' \<in> set (pendingFees d sid)" "p = settled e u f'" "feeId p = feeId g"
      using find_Some_mem[OF f] by auto
    then have "f' = g" using inj g by (auto simp: set_pendingFees feeId_settled dest: inj_onD)
    then show ?thesis using True f \<open>p = settled e u f'\<close> by simp
  next
    case False
    have "find (\<lambda>p. feeId p = feeId g) (map (settled e u) (pendingFees d sid)) = None"
    proof (rule ccontr)
      assume "find (\<lambda>p. feeId p = feeId g) (map (settled e u) (pendingFees d sid)) \<noteq> None"
      then obtain p where "find (\<lambda>p. feeId p = feeId g) (map (settled e u) (pendingFees d sid)) = Some p"
        by auto
      then obtain f' where "f' \<in> set (pendingFees d sid)" "feeId (settled e u f') = feeId g"
        using find_Some_mem by fastforce
      then have "f' = g" using inj g by (auto simp: set_pendingFees feeId_settled dest: inj_onD)
      then show False using False \<open>f' \<in> set (pendingFees d sid)\<close> by (simp add: set_pendingFees)
    qed
    then show ?thesis using False by simp
  qed
qed

lemma settle_accepted_fees:
  assumes dist: "distinct (map feeId (fees d))"
      and ok: "snd (saveAll (map (settled e u) (pendingFees d sid)) (fees d)) = None"
  shows "fst (saveAll (map (settled e u) (pendingFees d sid)) (fees d))
           = map (\<lambda>f. if feeStudentId f = sid \<and> feeStatus f = FeePending then settled e u f else f)
                 (fees d)"
proof -
  have dp: "distinct (map feeId (map (settled e u) (pendingFees d sid)))"
    using distinct_pendingFees[OF dist, of sid] by (simp add: o_def feeId_settled)
  show ?thesis
    unfolding saveAll_accepted[OF ok dp]
    by (rule map_cong) (simp_all add: find_settled[OF dist])
qed


text \<open>When the store accepts every write of a settlement: the pending fees are valid
  documents, the receipt numbers the settlement writes are pairwise different, and none of
  them is carried by another fee.\<close>

lemma saveAll_no_collision:
  assumes "\<forall>p \<in> set ps. validFee p"
      and "distinct (map receiptNumber ps)"
      and "\<forall>p \<in> set ps. \<forall>g \<in> set fs. feeId g \<noteq> feeId p
             \<longrightarrow> receiptNumber g \<noteq> receiptNumber p"
  shows "snd (saveAll ps fs) = None"
  using assms
proof (induction ps arbitrary: fs)
  case Nil
  then show ?case by simp
next
  case (Cons p ps)
  have ok: "saveFee p fs = Inr (map (\<lambda>g. if feeId g = feeId p then p else g) fs)"
    using Cons.prems by (auto simp: saveFee_def receiptTaken_def)
  have "\<forall>q \<in> set ps. \<forall>g \<in> set (map (\<lambda>g. if feeId g = feeId p then p else g) fs).
          feeId g \<noteq> feeId q \<longrightarrow> receiptNumber g \<noteq> receiptNumber q"
    using Cons.prems(2,3) by auto
  then have "snd (saveAll ps (map (\<lambda>g. if feeId g = feeId p then p else g) fs)) = None"
    using Cons.prems(1,2) by (intro Cons.IH) auto
  then show ?case using ok by simp
qed

lemma validFee_settled: "validFee (settled e u f) = validFee f"
  by (simp add: validFee_def settled_def)

lemma settlement_writes_accepted:
  assumes "\<forall>f \<in> set (pendingFees d sid). validFee f"
      and "distinct (map (\<lambda>f. receiptNumber (settled e u f)) (pendingFees d sid))"
      and "\<forall>f \<in> set (pendingFees d sid). \<forall>g \<in> set (fees d).
             feeId g \<noteq> feeId f \<longrightarrow> receiptNumber g \<noteq> receiptNumber (settled e u f)"
  shows "snd (saveAll (map (settled e u) (pendingFees d sid)) (fees d)) = None"
  using assms
  by (intro saveAll_no_collision) (auto simp: validFee_settled feeId_settled o_def)

lemma payMyFees_accepted:
  assumes st: "payingStudent d u = Inr st"
      and amt: "pbAmount b = Some (totalDue (pendingFees d (studentOid st)))"
               "0 < totalDue (pendingFees d (studentOid st))"
      and pend: "pendingFees d (studentOid st) \<noteq> []"
      and ok: "snd (saveAll (map (settled e u) (pendingFees d (studentOid st))) (fees d)) = None"
  shows "\<exists>ps data. payMyFees e d u b =
           (d\<lparr>fees := fst (saveAll (map (settled e u) (pendingFees d (studentOid st))) (fees d)),
              payments := ps\<rparr>,
            Inr \<lparr> respMessage = ''Payment recorded successfully'', respData = data,
                  respReceiptNumber = Some (generateReceiptNumber e) \<rparr>)
         \<and> (ps = payments d \<or> paymentWriteOk e
              \<and> castPayMethod (case pbMethod b of None \<Rightarrow> ''UPI'' | Some m \<Rightarrow> m) \<noteq> None)"
proof -
  obtain fs where sa: "saveAll (map (settled e u) (pendingFees d (studentOid st))) (fees d) = (fs, None)"
    using ok by (cases "saveAll (map (settled e u) (pendingFees d (studentOid st))) (fees d)") auto
  show ?thesis
    using st amt pend sa
    by (auto simp: payMyFees_def Let_def createPayment_def split: option.splits)
qed

text \<open>The guard \<^verbatim>\<open>amount <= 0\<close> comes first: an amount of 0, or a negative one, is
  refused with status 400 whatever the fees are.\<close>

lemma payMyFees_amount_not_positive:
  "pbAmount b = Some a \<Longrightarrow> a \<le> 0 \<Longrightarrow>
     payMyFees e d u b = (d, Inl (400, Msg ''Please provide a valid amount''))"
  by (simp add: payMyFees_def)

lemma payMyFees_zero_amount_refused:
  "pendingFees scDb 1 = []
   \<and> payMyFees (scEnv 100 70) scDb scStudent (scPay 0 ''UPI'')
       = (scDb, Inl (400, Msg ''Please provide a valid amount''))"
  by (simp add: fee_eval)

text \<open>
  Claim C4 at the settlement of two fees. The student of \<open>scTwoFees\<close> owes 500 and 300,
  both Pending and without a receipt number, and pays 800, the sum. The settlement gives
  both fees the one generated receipt number; the unique index of the fee schema refuses
  the second write, so the handler answers 500 with the first fee Paid, the second still
  Pending and no Payment recorded, where the claim has both Paid under the shared receipt
  number.
\<close>

theorem payMyFees_shared_receipt_refused:
  "map feeStatus (pendingFees scTwoFees 1) = [FeePending, FeePending]
   \<and> map receiptNumber (pendingFees scTwoFees 1) = [None, None]
   \<and> map amount (pendingFees scTwoFees 1) = [500, 300]
   \<and> totalDue (pendingFees scTwoFees 1) = 800
   \<and> snd (payMyFees (scEnv 100 70) scTwoFees scStudent (scPay 800 ''UPI''))
       = Inl (500, ErrorMessage DuplicateKey)
   \<and> map feeStatus (fees (fst (payMyFees (scEnv 100 70) scTwoFees scStudent (scPay 800 ''UPI''))))
       = [Paid, FeePending]
   \<and> map receiptNumber
        (fees (fst (payMyFees (scEnv 100 70) scTwoFees scStudent (scPay 800 ''UPI''))))
       = [Some ''RCPT-LX5K2-A1B2C3'', None]
   \<and> payments (fst (payMyFees (scEnv 100 70) scTwoFees scStudent (scPay 800 ''UPI''))) = []"
  by (simp add: fee_eval)

text \<open>
  Claim C5, as amended. For the student a caller pays for and a positive amount: with at
  least one Pending fee, the Pending amounts whole, not negative and of a sum of at most
  \<open>2^53\<close>, an amount different from that sum is answered with status 400 and the
  amount-mismatch message, and the database is returned as it was; with no Pending fee
  the answer is the success of the empty settlement, the database again as it was.
\<close>

theorem payMyFees_mismatch:
  assumes "payingStudent d u = Inr st"
      and "pbAmount b = Some x" and "0 < x"
  shows "(pendingFees d (studentOid st) \<noteq> []
            \<and> safeAmounts (pendingFees d (studentOid st))
            \<and> x \<noteq> sum_list (map amount (pendingFees d (studentOid st)))
          \<longrightarrow> payMyFees e d u b
                = (d, Inl (400, PaymentAmountMismatch
                                  (sum_list (map amount (pendingFees d (studentOid st)))) x)))
       \<and> (pendingFees d (studentOid st) = []
          \<longrightarrow> payMyFees e d u b
                = (d, Inr \<lparr> respMessage = ''No pending fees to pay'', respData = [],
                            respReceiptNumber = None \<rparr>))"
  using assms by (simp add: payMyFees_def totalDue_sum)

text \<open>Against the 800 due in \<open>scTwoFees\<close> a payment of 500 is refused; in \<open>scDb\<close>, where
  the student has no fee, a payment of 100 is the empty settlement.\<close>

theorem payMyFees_mismatch_witness:
  "payingStudent scTwoFees scStudent
     = Inr \<lparr> studentOid = 1, studentUserId = 10, rollNumber = ''R-001'' \<rparr>
   \<and> pendingFees scTwoFees 1 \<noteq> []
   \<and> safeAmounts (pendingFees scTwoFees 1)
   \<and> sum_list (map amount (pendingFees scTwoFees 1)) = 800
   \<and> payMyFees (scEnv 100 70) scTwoFees scStudent (scPay 500 ''UPI'')
       = (scTwoFees, Inl (400, PaymentAmountMismatch 800 500))
   \<and> payingStudent scDb scStudent
     = Inr \<lparr> studentOid = 1, studentUserId = 10, rollNumber = ''R-001'' \<rparr>
   \<and> pendingFees scDb 1 = []
   \<and> payMyFees (scEnv 100 70) scDb scStudent (scPay 100 ''UPI'')
       = (scDb, Inr \<lparr> respMessage = ''No pending fees to pay'', respData = [],
                       respReceiptNumber = None \<rparr>)"
  using payMyFees_mismatch[of scTwoFees scStudent
          "\<lparr> studentOid = 1, studentUserId = 10, rollNumber = ''R-001'' \<rparr>"
          "scPay 500 ''UPI''" 500 "scEnv 100 70"]
        payMyFees_mismatch[of scDb scStudent
          "\<lparr> studentOid = 1, studentUserId = 10, rollNumber = ''R-001'' \<rparr>"
          "scPay 100 ''UPI''" 100 "scEnv 100 70"]
  by (simp add: fee_eval safeAmounts_def)

text \<open>Claim C5 as stated fails for a student without Pending fees: the sum is 0, the
  amount 100 differs from it, and the answer is the success of the empty settlement.\<close>

theorem payMyFees_no_pending_counterexample:
  "pendingFees scDb 1 = [] \<and> sum_list (map amount (pendingFees scDb 1)) = 0
   \<and> payMyFees (scEnv 100 70) scDb scStudent (scPay 100 ''UPI'')
       = (scDb, Inr \<lparr> respMessage = ''No pending fees to pay'', respData = [],
                       respReceiptNumber = None \<rparr>)"
  by (simp add: fee_eval)

text \<open>
  Claim C6. When every fee write of a settlement (of whole amounts with a sum of at most
  \<open>2^53\<close>) has been accepted and the write of the Payment record then fails (the method is not one of the schema's, or the collection
  refuses the write), the handler still answers with success and the receipt number, no
  Payment record is added, and the fees stay as the settlement left them: every fee of
  the student is Paid.
\<close>

theorem payMyFees_payment_write_fails:
  assumes st: "payingStudent d u = Inr st"
      and pend: "pendingFees d (studentOid st) \<noteq> []"
      and safe: "safeAmounts (pendingFees d (studentOid st))"
      and amt: "pbAmount b = Some (totalDue (pendingFees d (studentOid st)))"
               "0 < totalDue (pendingFees d (studentOid st))"
      and dist: "distinct (map feeId (fees d))"
      and ok: "snd (saveAll (map (settled e u) (pendingFees d (studentOid st))) (fees d)) = None"
      and fails: "castPayMethod (case pbMethod b of None \<Rightarrow> ''UPI'' | Some m \<Rightarrow> m) = None
                  \<or> \<not> paymentWriteOk e"
  shows "(\<exists>r. snd (payMyFees e d u b) = Inr r
              \<and> respMessage r = ''Payment recorded successfully''
              \<and> respReceiptNumber r = Some (generateReceiptNumber e))
       \<and> payments (fst (payMyFees e d u b)) = payments d
       \<and> fees (fst (payMyFees e d u b))
            = map (\<lambda>f. if feeStudentId f = studentOid st \<and> feeStatus f = FeePending
                        then settled e u f else f) (fees d)
       \<and> (\<forall>f \<in> set (fees (fst (payMyFees e d u b))).
             feeStudentId f = studentOid st \<longrightarrow> feeStatus f = Paid)"
proof -
  from payMyFees_accepted[OF st amt pend ok] obtain ps data where
    r: "payMyFees e d u b =
         (d\<lparr>fees := fst (saveAll (map (settled e u) (pendingFees d (studentOid st))) (fees d)),
            payments := ps\<rparr>,
          Inr \<lparr> respMessage = ''Payment recorded successfully'', respData = data,
                respReceiptNumber = Some (generateReceiptNumber e) \<rparr>)"
    and ps: "ps = payments d \<or> paymentWriteOk e
              \<and> castPayMethod (case pbMethod b of None \<Rightarrow> ''UPI'' | Some m \<Rightarrow> m) \<noteq> None"
    by blast
  have ps': "ps = payments d"
  proof (rule disjE[OF ps])
    assume "ps = payments d" then show ?thesis .
  next
    assume "paymentWriteOk e
              \<and> castPayMethod (case pbMethod b of None \<Rightarrow> ''UPI'' | Some m \<Rightarrow> m) \<noteq> None"
    then show ?thesis using fails by simp
  qed
  have fs: "fees (fst (payMyFees e d u b))
            = map (\<lambda>f. if feeStudentId f = studentOid st \<and> feeStatus f = FeePending
                        then settled e u f else f) (fees d)"
    using settle_accepted_fees[OF dist ok] by (simp add: r)
  have paid: "\<forall>f \<in> set (fees (fst (payMyFees e d u b))).
             feeStudentId f = studentOid st \<longrightarrow> feeStatus f = Paid"
  proof
    fix f' assume "f' \<in> set (fees (fst (payMyFees e d u b)))"
    then obtain f where f: "f \<in> set (fees d)"
      and f': "f' = (if feeStudentId f = studentOid st \<and> feeStatus f = FeePending
                     then settled e u f else f)"
      unfolding fs by auto
    show "feeStudentId f' = studentOid st \<longrightarrow> feeStatus f' = Paid"
      using f' by (cases "feeStatus f") (simp_all add: settled_def)
  qed
  have res: "\<exists>r. snd (payMyFees e d u b) = Inr r
              \<and> respMessage r = ''Payment recorded successfully''
              \<and> respReceiptNumber r = Some (generateReceiptNumber e)"
    by (simp add: r)
  have pays: "payments (fst (payMyFees e d u b)) = payments d"
    by (simp add: r ps')
  show ?thesis using res pays fs paid by blast
qed


text \<open>In \<open>scOneReceipt\<close> the student pays 800 by a method the Payment schema does not
  know: success, no Payment record, both fees Paid.\<close>

theorem payMyFees_payment_write_fails_witness:
  "payingStudent scOneReceipt scStudent
     = Inr \<lparr> studentOid = 1, studentUserId = 10, rollNumber = ''R-001'' \<rparr>
   \<and> castPayMethod ''Bitcoin'' = None
   \<and> safeAmounts (pendingFees scOneReceipt 1)
   \<and> totalDue (pendingFees scOneReceipt 1) = 800
   \<and> snd (saveAll (map (settled (scEnv 100 70) scStudent) (pendingFees scOneReceipt 1))
             (fees scOneReceipt)) = None
   \<and> map_sum fst respMessage (snd (payMyFees (scEnv 100 70) scOneReceipt scStudent (scPay 800 ''Bitcoin'')))
       = Inr ''Payment recorded successfully''
   \<and> payments (fst (payMyFees (scEnv 100 70) scOneReceipt scStudent (scPay 800 ''Bitcoin''))) = []
   \<and> map feeStatus (fees (fst (payMyFees (scEnv 100 70) scOneReceipt scStudent (scPay 800 ''Bitcoin''))))
       = [Paid, Paid]"
  using payMyFees_payment_write_fails[of scOneReceipt scStudent
          "\<lparr> studentOid = 1, studentUserId = 10, rollNumber = ''R-001'' \<rparr>"
          "scPay 800 ''Bitcoin''" "scEnv 100 70"]
  by (simp add: fee_eval safeAmounts_def)

lemma settled_paidStamped: "paidStamped (settled e u f)"
  by (cases "receiptNumber f") (auto simp: paidStamped_def settled_def generateReceiptNumber_def)

lemma saveFee_subset: "saveFee f fs = Inr fs' \<Longrightarrow> set fs' \<subseteq> set fs \<union> {f}"
  by (auto dest!: saveFee_Inr)

lemma payMyFees_fees:
  "set (fees (fst (payMyFees e d u b)))
     \<subseteq> set (fees d) \<union> settled e u ` set (fees d)"
proof (cases "payingStudent d u")
  case (Inl err)
  then have "fees (fst (payMyFees e d u b)) = fees d"
    by (auto simp: payMyFees_def split: option.splits)
  then show ?thesis by simp
next
  case (Inr st)
  let ?sa = "saveAll (map (settled e u) (pendingFees d (studentOid st))) (fees d)"
  have "fees (fst (payMyFees e d u b)) = fees d \<or> fees (fst (payMyFees e d u b)) = fst ?sa"
    using Inr by (cases ?sa) (auto simp: payMyFees_def Let_def split: option.splits)
  moreover have "set (fst ?sa) \<subseteq> set (fees d) \<union> settled e u ` set (fees d)"
    using saveAll_subset[of "map (settled e u) (pendingFees d (studentOid st))" "fees d"]
    by (auto simp: set_pendingFees)
  ultimately show ?thesis by auto
qed

lemma updateFeeDoc_paidDated: "updateFeeDoc e b f = Some f' \<Longrightarrow> paidDated f \<Longrightarrow> paidDated f'"
  by (auto simp: updateFeeDoc_def paidDated_def castFeeStatus_def Let_def
           split: option.splits if_splits)

text \<open>
  Claim C8, as amended. \<^verbatim>\<open>payMyFees\<close> preserves that every Paid fee has both
  \<open>paidAt\<close> and a receipt number, and so does \<^verbatim>\<open>createFee\<close> when the body's status is
  absent or \<open>'Pending'\<close>; \<^verbatim>\<open>updateFee\<close> and \<^verbatim>\<open>markFeePaid\<close> preserve that every
  Paid fee has \<open>paidAt\<close>.
\<close>

theorem fee_invariant_preserved:
  "((\<forall>f \<in> set (fees d). paidStamped f) \<longrightarrow>
       (\<forall>f \<in> set (fees (fst (payMyFees e d u pb))). paidStamped f)
     \<and> ((fbStatus b = None \<or> fbStatus b = Some ''Pending'') \<longrightarrow>
          (\<forall>f \<in> set (fees (fst (createFee e d b))). paidStamped f)))
   \<and> ((\<forall>f \<in> set (fees d). paidDated f) \<longrightarrow>
       (\<forall>f \<in> set (fees (fst (updateFee e d i b))). paidDated f)
     \<and> (\<forall>f \<in> set (fees (fst (markFeePaid e d u i b))). paidDated f))"
proof -
  have pay: "\<forall>f \<in> set (fees (fst (payMyFees e d u pb))). paidStamped f"
    if "\<forall>f \<in> set (fees d). paidStamped f"
    using that payMyFees_fees[of e d u pb] settled_paidStamped by auto
  have cre: "\<forall>f \<in> set (fees (fst (createFee e d b))). paidStamped f"
    if "\<forall>f \<in> set (fees d). paidStamped f" "fbStatus b = None \<or> fbStatus b = Some ''Pending''"
    using that
    by (auto simp: createFee_def castFeeStatus_def paidStamped_def Let_def
             split: option.splits if_splits)
  have upd: "\<forall>f \<in> set (fees (fst (updateFee e d i b))). paidDated f"
    if inv: "\<forall>f \<in> set (fees d). paidDated f"
  proof (cases "feeById d i")
    case None
    then show ?thesis using inv by (simp add: updateFee_def)
  next
    case (Some f0)
    then have f0: "paidDated f0" using inv find_Some_mem[of _ "fees d" f0] by (auto simp: feeById_def)
    show ?thesis
    proof (cases "updateFeeDoc e b f0")
      case None
      then show ?thesis using Some inv by (simp add: updateFee_def)
    next
      case (Some f')
      then have "paidDated f'" using updateFeeDoc_paidDated f0 by blast
      then show ?thesis
        using inv \<open>feeById d i = Some f0\<close> Some saveFee_subset[of f' "fees d"]
        by (cases "saveFee f' (fees d)") (auto simp: updateFee_def)
    qed
  qed
  have mark: "\<forall>f \<in> set (fees (fst (markFeePaid e d u i b))). paidDated f"
    if inv: "\<forall>f \<in> set (fees d). paidDated f"
  proof (cases "feeById d i")
    case None
    then show ?thesis using inv by (simp add: markFeePaid_def)
  next
    case (Some f0)
    let ?f1 = "f0\<lparr> feeStatus := Paid, paidAt := Some (now e), paidBy := Some warden,
                       paidByUserId := Some (userId u) \<rparr>"
    let ?f' = "if truthy (fbReceiptNumber b)
                     then ?f1\<lparr>receiptNumber := Some (trim (the (fbReceiptNumber b)))\<rparr>
                     else ?f1"
    have "paidDated ?f'" by (simp add: paidDated_def)
    then show ?thesis
      using inv Some saveFee_subset[of ?f' "fees d"]
      by (cases "saveFee ?f' (fees d)") (auto simp: markFeePaid_def Let_def)
  qed
  show ?thesis using pay cre upd mark by blast
qed

text \<open>\<open>scOneReceipt\<close> has no Paid fee; after the settlement, and after the warden
  marks fee 61 paid, the respective invariant holds.\<close>

theorem fee_invariant_preserved_witness:
  "list_all paidStamped (fees scOneReceipt)
   \<and> list_all paidDated (fees scOneReceipt)
   \<and> list_all paidStamped
        (fees (fst (payMyFees (scEnv 100 70) scOneReceipt scStudent (scPay 800 ''UPI''))))
   \<and> list_all paidDated
        (fees (fst (markFeePaid (scEnv 100 70) scOneReceipt scWarden 61 (scReceiptBody None))))"
proof -
  have a: "\<forall>f \<in> set (fees scOneReceipt). paidStamped f"
    by (simp add: fee_eval paidStamped_def)
  have b: "\<forall>f \<in> set (fees scOneReceipt). paidDated f"
    by (simp add: fee_eval paidDated_def)
  show ?thesis
    unfolding list_all_iff
    using a b fee_invariant_preserved[of scOneReceipt "scEnv 100 70" scStudent "scPay 800 ''UPI''"
                 "scReceiptBody None" 61]
     fee_invariant_preserved[of scOneReceipt "scEnv 100 70" scWarden "scPay 800 ''UPI''"
                 "scReceiptBody None" 61]
    by blast
qed

text \<open>Claim C8 as stated fails at \<^verbatim>\<open>markFeePaid\<close> without a receipt number in the
  body: fee 61 becomes Paid and has no receipt number.\<close>

theorem markFeePaid_no_receipt_counterexample:
  "map feeStatus (fees scTwoFees) = [FeePending, FeePending]
   \<and> map_option feeStatus
       (feeById (fst (markFeePaid (scEnv 100 70) scTwoFees scWarden 61 (scReceiptBody None))) 61)
       = Some Paid
   \<and> map_option receiptNumber
       (feeById (fst (markFeePaid (scEnv 100 70) scTwoFees scWarden 61 (scReceiptBody None))) 61)
       = Some None"
  by (simp add: fee_eval)

end
